theory Spec2Isabelle
  imports Complex_Main
begin

section \<open>Errors\<close>

text \<open>
  Exceptions are values: \<open>Error msg\<close> is an \<open>Error\<close> (or a subclass such as TypeError)
  with that message, \<open>ZodError\<close> carries the issues of a failed schema check. A function
  that can throw returns \<open>exn + 'a\<close>.
\<close>

datatype exn = Error string | ZodError "string list"

section \<open>Permission model (src/lib/auth.ts)\<close>

text \<open>
  A role's permission set is a JSON object from resource name to an array of action
  names; the column is nullable, so the argument of \<open>hasPermission\<close> may be
  \<open>null\<close>/\<open>undefined\<close> (\<open>None\<close>). An object, even an empty one, is truthy, and so
  is an array, even an empty one. The object is the list of its own keys with their
  values, read through \<open>map_of\<close>.
\<close>

type_synonym permissions = "(string \<times> string list) list"

text \<open>
  \<open>obj[key]\<close> on a plain object: an own property gives its value; a key the object does
  not own is looked up in \<open>Object.prototype\<close>, whose members are functions (and, for
  \<open>__proto__\<close>, the prototype object): truthy values that are not arrays.
\<close>

definition object_prototype_keys :: "string list" where
  "object_prototype_keys =
     [''constructor'', ''__proto__'', ''hasOwnProperty'', ''isPrototypeOf'',
      ''propertyIsEnumerable'', ''toLocaleString'', ''toString'', ''valueOf'',
      ''__defineGetter__'', ''__defineSetter__'', ''__lookupGetter__'', ''__lookupSetter__'']"

datatype 'v property = Own 'v | Inherited | Undefined

definition js_get :: "(string \<times> 'v) list \<Rightarrow> string \<Rightarrow> 'v property" where
  "js_get obj k =
     (case map_of obj k of
        Some v \<Rightarrow> Own v
      | None \<Rightarrow> if k \<in> set object_prototype_keys then Inherited else Undefined)"

text \<open>\<open>Array.prototype.includes\<close> on an array of strings.\<close>

definition array_includes :: "string list \<Rightarrow> string \<Rightarrow> bool" where
  "array_includes xs a = (a \<in> set xs)"

text \<open>\<open>x && x.includes(a)\<close> as a condition: false on undefined, a TypeError on a truthy
  value without \<open>includes\<close>.\<close>

definition and_includes :: "string list property \<Rightarrow> string \<Rightarrow> exn + bool" where
  "and_includes x a =
     (case x of
        Undefined \<Rightarrow> Inr False
      | Own xs \<Rightarrow> Inr (array_includes xs a)
      | Inherited \<Rightarrow> Inl (Error ''userPermissions[...].includes is not a function''))"

text \<open>
  \<^verbatim>\<open>
  if (!userPermissions) return false;
  if (userPermissions['*'] && userPermissions['*'].includes('*')) return true;
  const resourcePermissions = userPermissions[resource];
  if (!resourcePermissions) return false;
  return resourcePermissions.includes(action) || resourcePermissions.includes('*');
  \<close>
\<close>

definition hasPermission :: "permissions option \<Rightarrow> string \<Rightarrow> string \<Rightarrow> exn + bool" where
  "hasPermission userPermissions resource action =
     (case userPermissions of
        None \<Rightarrow> Inr False
      | Some perms \<Rightarrow>
          (case and_includes (js_get perms ''*'') ''*'' of
             Inl err \<Rightarrow> Inl err
           | Inr True \<Rightarrow> Inr True
           | Inr False \<Rightarrow>
               (case js_get perms resource of
                  Undefined \<Rightarrow> Inr False
                | Inherited \<Rightarrow> Inl (Error ''resourcePermissions.includes is not a function'')
                | Own resourcePermissions \<Rightarrow>
                    Inr (array_includes resourcePermissions action \<or>
                         array_includes resourcePermissions ''*''))))"

section \<open>Token service (src/lib/auth.ts)\<close>

record TokenPayload =
  tp_userId :: string
  tp_tenantId :: string
  tp_roleId :: string
  tp_email :: string

text \<open>
  What \<open>jwt.verify\<close> hands back: the signed claims together with the issue time and
  the expiry the library added when signing (seconds).
\<close>

record JwtPayload = TokenPayload +
  iat :: nat
  expiry :: nat

datatype jwt_error = JsonWebTokenError string | TokenExpiredError | NotBeforeError

text \<open>
  The \<open>jsonwebtoken\<close> package is an external collaborator and enters as a parameter:
  \<open>jwt_sign payload secret expiresIn clock\<close> and \<open>jwt_verify token secret clock\<close>, the
  clock in seconds. The configured time span is taken in seconds (\<open>'24h'\<close> is 86400).
\<close>

record jwt_lib =
  jwt_sign :: "TokenPayload \<Rightarrow> string \<Rightarrow> nat \<Rightarrow> nat \<Rightarrow> string"
  jwt_verify :: "string \<Rightarrow> string \<Rightarrow> nat \<Rightarrow> jwt_error + JwtPayload"

text \<open>The process environment: \<open>process.env.JWT_SECRET\<close>, \<open>process.env.JWT_EXPIRES_IN\<close>.\<close>

record env =
  env_JWT_SECRET :: "string option"
  env_JWT_EXPIRES_IN :: "nat option"

text \<open>\<open>process.env.JWT_SECRET || 'your-secret-key-change-in-production'\<close>: an unset
  or empty variable falls back to the default.\<close>

definition JWT_SECRET :: "env \<Rightarrow> string" where
  "JWT_SECRET e =
     (case env_JWT_SECRET e of
        None \<Rightarrow> ''your-secret-key-change-in-production''
      | Some s \<Rightarrow> if s = [] then ''your-secret-key-change-in-production'' else s)"

definition JWT_EXPIRES_IN :: "env \<Rightarrow> nat" where
  "JWT_EXPIRES_IN e = (case env_JWT_EXPIRES_IN e of None \<Rightarrow> 86400 | Some n \<Rightarrow> n)"

text \<open>\<open>return jwt.sign(payload, JWT_SECRET, { expiresIn: JWT_EXPIRES_IN });\<close>\<close>

definition generateToken :: "jwt_lib \<Rightarrow> env \<Rightarrow> nat \<Rightarrow> TokenPayload \<Rightarrow> string" where
  "generateToken lib e clock payload =
     jwt_sign lib payload (JWT_SECRET e) (JWT_EXPIRES_IN e) clock"

text \<open>
  \<^verbatim>\<open>
  try { return jwt.verify(token, JWT_SECRET) as TokenPayload; }
  catch (error) { throw new Error('Invalid or expired token'); }
  \<close>
  The cast changes no value: the result still carries \<open>iat\<close> and the expiry.
\<close>

definition verifyToken :: "jwt_lib \<Rightarrow> env \<Rightarrow> nat \<Rightarrow> string \<Rightarrow> exn + JwtPayload" where
  "verifyToken lib e clock token =
     (case jwt_verify lib token (JWT_SECRET e) clock of
        Inl err \<Rightarrow> Inl (Error ''Invalid or expired token'')
      | Inr payload \<Rightarrow> Inr payload)"

text \<open>
  The contract of the library that the round trip rests on: a token signed at time \<open>t\<close>
  with life \<open>life\<close> verifies under the same secret at every time before \<open>t + life\<close>,
  and gives back the signed claims with \<open>iat = t\<close> and expiry \<open>t + life\<close>.
\<close>

definition jwt_roundtrip :: "jwt_lib \<Rightarrow> bool" where
  "jwt_roundtrip lib =
     (\<forall>p secret life t t'. t' < t + life \<longrightarrow>
        jwt_verify lib (jwt_sign lib p secret life t) secret t' =
          Inr (TokenPayload.extend p \<lparr>iat = t, expiry = t + life\<rparr>))"

subsection \<open>A reference token library\<close>

text \<open>
  An executable stand-in for the library, used to run the handlers on concrete requests.
  A token is the four claims, the issue time and the expiry, each field closed by a dot,
  followed by the signature. In a string field every character is escaped by an
  underscore; a number is written in unary. The signature is a keyed function of the
  secret and the body, and verification compares it, then the expiry.
\<close>

definition enc_str :: "string \<Rightarrow> string" where
  "enc_str s = concat (map (\<lambda>c. [CHR ''_'', c]) s) @ ''.''"

definition enc_nat :: "nat \<Rightarrow> string" where
  "enc_nat n = replicate n (CHR ''1'') @ ''.''"

fun dec_str :: "string \<Rightarrow> (string \<times> string) option" where
  "dec_str [] = None"
| "dec_str [c] = (if c = CHR ''.'' then Some ([], []) else None)"
| "dec_str (c # d # ds) =
     (if c = CHR ''.'' then Some ([], d # ds)
      else if c = CHR ''_'' then map_option (\<lambda>(s, r). (d # s, r)) (dec_str ds)
      else None)"

fun dec_nat :: "string \<Rightarrow> (nat \<times> string) option" where
  "dec_nat [] = None"
| "dec_nat (c # cs) =
     (if c = CHR ''.'' then Some (0, cs)
      else if c = CHR ''1'' then map_option (\<lambda>(n, r). (Suc n, r)) (dec_nat cs)
      else None)"

definition ref_body :: "JwtPayload \<Rightarrow> string" where
  "ref_body p =
     enc_str (tp_userId p) @ enc_str (tp_tenantId p) @ enc_str (tp_roleId p) @ enc_str (tp_email p) @
     enc_nat (iat p) @ enc_nat (expiry p)"

definition ref_mac :: "string \<Rightarrow> string \<Rightarrow> string" where
  "ref_mac secret body = rev body @ secret"

definition ref_decode :: "string \<Rightarrow> (JwtPayload \<times> string) option" where
  "ref_decode token =
     (case dec_str token of None \<Rightarrow> None | Some (u, r1) \<Rightarrow>
      case dec_str r1 of None \<Rightarrow> None | Some (t, r2) \<Rightarrow>
      case dec_str r2 of None \<Rightarrow> None | Some (r, r3) \<Rightarrow>
      case dec_str r3 of None \<Rightarrow> None | Some (m, r4) \<Rightarrow>
      case dec_nat r4 of None \<Rightarrow> None | Some (i, r5) \<Rightarrow>
      case dec_nat r5 of None \<Rightarrow> None | Some (x, sig) \<Rightarrow>
        Some (\<lparr>tp_userId = u, tp_tenantId = t, tp_roleId = r, tp_email = m, iat = i, expiry = x\<rparr>, sig))"

definition ref_sign :: "TokenPayload \<Rightarrow> string \<Rightarrow> nat \<Rightarrow> nat \<Rightarrow> string" where
  "ref_sign p secret life clock =
     (let body = ref_body (TokenPayload.extend p \<lparr>iat = clock, expiry = clock + life\<rparr>)
      in body @ ref_mac secret body)"

definition ref_verify :: "string \<Rightarrow> string \<Rightarrow> nat \<Rightarrow> jwt_error + JwtPayload" where
  "ref_verify token secret clock =
     (case ref_decode token of
        None \<Rightarrow> Inl (JsonWebTokenError ''jwt malformed'')
      | Some (p, sig) \<Rightarrow>
          if sig \<noteq> ref_mac secret (ref_body p) then Inl (JsonWebTokenError ''invalid signature'')
          else if expiry p \<le> clock then Inl TokenExpiredError
          else Inr p)"

definition ref_jwt :: jwt_lib where
  "ref_jwt = \<lparr>jwt_sign = ref_sign, jwt_verify = ref_verify\<rparr>"

section \<open>Numbers\<close>

text \<open>
  A JavaScript number is a double. The numbers of this layer hold integers, and an
  integer of magnitude up to \<open>2 ^ 53\<close> is a double exactly; a larger one is rounded to
  53 significant bits, ties to even. \<open>to_double\<close> is that rounding on the integers, and
  \<open>js_minus\<close> and \<open>js_times\<close> are \<open>-\<close> and \<open>*\<close> on doubles that hold integers. Beyond
  the largest finite double (about \<open>1.8e308\<close>) the code computes \<open>Infinity\<close>; such
  magnitudes are outside what an \<open>int\<close> here stands for.
\<close>

function bit_length :: "int \<Rightarrow> nat" where
  "bit_length n = (if n \<le> 0 then 0 else Suc (bit_length (n div 2)))"
  by pat_completeness auto
termination
  by (relation "measure nat") auto

declare bit_length.simps [simp del]

definition to_double :: "int \<Rightarrow> int" where
  "to_double n =
     (let a = \<bar>n\<bar>;
          e = bit_length a - 53
      in if e = 0 then n
         else (let q = a div 2 ^ e;
                   r = a mod 2 ^ e;
                   half = 2 ^ (e - 1);
                   m = (if half < r \<or> (r = half \<and> odd q) then q + 1 else q)
               in sgn n * (m * 2 ^ e)))"

definition js_minus :: "int \<Rightarrow> int \<Rightarrow> int" where
  "js_minus a b = to_double (a - b)"

definition js_times :: "int \<Rightarrow> int \<Rightarrow> int" where
  "js_times a b = to_double (a * b)"

section \<open>The persistent store\<close>

text \<open>
  The store is the external collaborator behind the Prisma client. It is modelled in
  memory: tables are lists of rows, and every operation throws while the store is
  unreachable (\<open>dbUp\<close> false). A user row carries its role, as the queries of this
  layer always ask for it (\<open>include: { role: true }\<close>). \<open>console\<close> collects the
  lines written with \<open>console.error\<close>.
\<close>

record role_row =
  role_id :: string
  role_name :: string
  role_permissions :: "permissions option"

record user_row =
  user_id :: string
  user_email :: string
  user_firstName :: "string option"
  user_lastName :: "string option"
  user_tenantId :: string
  user_roleId :: "string option"
  user_role :: "role_row option"
  user_isActive :: bool

record account_row =
  acc_id :: string
  acc_tenantId :: string
  acc_name :: string
  acc_website :: "string option"
  acc_industry :: "string option"
  acc_accountType :: string
  acc_city :: "string option"
  acc_ownerId :: "string option"
  acc_isActive :: bool
  acc_createdAt :: int
  acc_updatedAt :: int

record audit_row =
  al_tenantId :: string
  al_userId :: "string option"
  al_action :: string
  al_resourceType :: string
  al_resourceId :: "string option"
  al_beforeData :: "string option"
  al_afterData :: "string option"
  al_ipAddress :: "string option"
  al_userAgent :: "string option"

record world =
  dbUp :: bool
  users :: "user_row list"
  accounts :: "account_row list"
  auditLogs :: "audit_row list"
  console :: "string list"

definition db_unreachable :: exn where
  "db_unreachable = Error ''Can't reach database server''"

text \<open>\<open>prisma.user.findFirst({ where })\<close>: the first row the filter accepts, or null.\<close>

definition user_findFirst :: "world \<Rightarrow> (user_row \<Rightarrow> bool) \<Rightarrow> exn + user_row option" where
  "user_findFirst w P = (if dbUp w then Inr (find P (users w)) else Inl db_unreachable)"

subsection \<open>Query descriptors\<close>

text \<open>
  A where-clause is a JSON object: a list of keys with their conditions, read through
  \<open>map_of\<close>. The conditions are the ones this repository builds: equality with a
  scalar, \<open>{ contains, mode }\<close>, and \<open>OR\<close> over a list of objects of such conditions.
  The keys of one object hold together (conjunction).
\<close>

datatype scalar = S string | B bool | N int

datatype cond = Equals scalar | Contains string string

datatype where_value = Field cond | Or "(string \<times> cond) list list"

type_synonym where_clause = "(string \<times> where_value) list"

datatype sort_order = asc | desc

type_synonym order_by = "string \<times> sort_order"

text \<open>\<open>{ ...obj, k: v }\<close>: the key is set, whatever \<open>obj\<close> held under it.\<close>

definition obj_set :: "string \<Rightarrow> 'v \<Rightarrow> (string \<times> 'v) list \<Rightarrow> (string \<times> 'v) list" where
  "obj_set k v obj = filter (\<lambda>kv. fst kv \<noteq> k) obj @ [(k, v)]"

text \<open>\<open>{ ...x }\<close> of an absent \<open>x\<close> is the empty object.\<close>

definition obj_spread :: "(string \<times> 'v) list option \<Rightarrow> (string \<times> 'v) list" where
  "obj_spread x = (case x of None \<Rightarrow> [] | Some obj \<Rightarrow> obj)"

subsection \<open>The account table\<close>

definition account_get :: "account_row \<Rightarrow> string \<Rightarrow> scalar option" where
  "account_get a k =
     (if k = ''id'' then Some (S (acc_id a))
      else if k = ''tenantId'' then Some (S (acc_tenantId a))
      else if k = ''name'' then Some (S (acc_name a))
      else if k = ''website'' then map_option S (acc_website a)
      else if k = ''industry'' then map_option S (acc_industry a)
      else if k = ''accountType'' then Some (S (acc_accountType a))
      else if k = ''city'' then map_option S (acc_city a)
      else if k = ''ownerId'' then map_option S (acc_ownerId a)
      else if k = ''isActive'' then Some (B (acc_isActive a))
      else if k = ''createdAt'' then Some (N (acc_createdAt a))
      else if k = ''updatedAt'' then Some (N (acc_updatedAt a))
      else None)"

definition to_lower :: "char \<Rightarrow> char" where
  "to_lower c =
     (let n = (of_char c :: nat) in if 65 \<le> n \<and> n \<le> 90 then char_of (n + 32) else c)"

fun contains_str :: "string \<Rightarrow> string \<Rightarrow> bool" where
  "contains_str [] pat = (pat = [])"
| "contains_str (c # cs) pat = (take (length pat) (c # cs) = pat \<or> contains_str cs pat)"

definition cond_holds :: "scalar option \<Rightarrow> cond \<Rightarrow> bool" where
  "cond_holds field c =
     (case c of
        Equals v \<Rightarrow> field = Some v
      | Contains pat mode \<Rightarrow>
          (case field of
             Some (S x) \<Rightarrow>
               if mode = ''insensitive'' then contains_str (map to_lower x) (map to_lower pat)
               else contains_str x pat
           | _ \<Rightarrow> False))"

definition all_hold :: "('row \<Rightarrow> string \<Rightarrow> scalar option) \<Rightarrow> 'row \<Rightarrow> (string \<times> cond) list \<Rightarrow> bool" where
  "all_hold get row obj =
     list_all (\<lambda>k. case map_of obj k of None \<Rightarrow> True | Some c \<Rightarrow> cond_holds (get row k) c)
       (map fst obj)"

definition where_matches :: "('row \<Rightarrow> string \<Rightarrow> scalar option) \<Rightarrow> where_clause \<Rightarrow> 'row \<Rightarrow> bool" where
  "where_matches get wh row =
     list_all
       (\<lambda>k. case map_of wh k of
               None \<Rightarrow> True
             | Some (Field c) \<Rightarrow> cond_holds (get row k) c
             | Some (Or alts) \<Rightarrow> list_ex (all_hold get row) alts)
       (map fst wh)"

text \<open>
  Ordering is modelled on the numeric columns (the two timestamps); on any other column
  every row has the same key and the stable sort keeps the stored order.
\<close>

definition order_key :: "('row \<Rightarrow> string \<Rightarrow> scalar option) \<Rightarrow> string \<Rightarrow> 'row \<Rightarrow> int" where
  "order_key get k row = (case get row k of Some (N n) \<Rightarrow> n | _ \<Rightarrow> 0)"

definition order_rows :: "('row \<Rightarrow> string \<Rightarrow> scalar option) \<Rightarrow> order_by \<Rightarrow> 'row list \<Rightarrow> 'row list" where
  "order_rows get ob rows =
     (case snd ob of
        asc \<Rightarrow> sort_key (order_key get (fst ob)) rows
      | desc \<Rightarrow> sort_key (\<lambda>r. - order_key get (fst ob) r) rows)"

text \<open>What \<open>findMany\<close> receives, and the two operations \<open>paginate\<close> calls on its
  \<open>model\<close> argument.\<close>

record 'inc find_args =
  fa_where :: where_clause
  fa_include :: "'inc option"
  fa_orderBy :: order_by
  fa_skip :: int
  fa_take :: int

record ('row, 'inc) model =
  findMany :: "'inc find_args \<Rightarrow> exn + 'row list"
  count_rows :: "where_clause \<Rightarrow> exn + int"

text \<open>
  The store's window: a negative \<open>skip\<close> is refused; a non-negative \<open>take\<close> counts from
  the start of the ordered rows and a negative one from their end.
\<close>

definition window :: "int \<Rightarrow> int \<Rightarrow> 'row list \<Rightarrow> 'row list" where
  "window skip tk rows =
     (if 0 \<le> tk then take (nat tk) (drop (nat skip) rows)
      else rev (take (nat (- tk)) (drop (nat skip) (rev rows))))"

definition mem_findMany ::
  "('row \<Rightarrow> string \<Rightarrow> scalar option) \<Rightarrow> bool \<Rightarrow> 'row list \<Rightarrow> 'inc find_args \<Rightarrow> exn + 'row list" where
  "mem_findMany get up rows args =
     (if \<not> up then Inl db_unreachable
      else if fa_skip args < 0 then Inl (Error ''Invalid value for skip argument'')
      else Inr (window (fa_skip args) (fa_take args)
                  (order_rows get (fa_orderBy args) (filter (where_matches get (fa_where args)) rows))))"

definition mem_count ::
  "('row \<Rightarrow> string \<Rightarrow> scalar option) \<Rightarrow> bool \<Rightarrow> 'row list \<Rightarrow> where_clause \<Rightarrow> exn + int" where
  "mem_count get up rows wh =
     (if \<not> up then Inl db_unreachable
      else Inr (int (length (filter (where_matches get wh) rows))))"

text \<open>\<open>prisma.account\<close> over the store.\<close>

definition prisma_account :: "world \<Rightarrow> (account_row, 'inc) model" where
  "prisma_account w =
     \<lparr>findMany = mem_findMany account_get (dbUp w) (accounts w),
      count_rows = mem_count account_get (dbUp w) (accounts w)\<rparr>"

section \<open>Tenant scoping and pagination (database helpers)\<close>

text \<open>
  \<^verbatim>\<open>
  return { ...baseQuery, where: { ...baseQuery.where, tenantId } };
  \<close>
  Every other field of the descriptor is kept. Reading \<open>.where\<close> of an absent
  \<open>baseQuery\<close> is a TypeError (the message is the one for \<open>undefined\<close>; for \<open>null\<close>
  it names \<open>null\<close>).
\<close>

record base_query =
  bq_where :: "where_clause option"

definition withTenantFilter ::
  "string \<Rightarrow> 'a base_query_scheme option \<Rightarrow> exn + 'a base_query_scheme" where
  "withTenantFilter tenantId baseQuery =
     (case baseQuery of
        None \<Rightarrow> Inl (Error ''Cannot read properties of undefined (reading 'where')'')
      | Some q \<Rightarrow>
          Inr (q\<lparr>bq_where :=
                  Some (obj_set ''tenantId'' (Field (Equals (S tenantId))) (obj_spread (bq_where q)))\<rparr>))"

text \<open>
  The parameters of \<open>paginate\<close>. A \<open>number\<close> that is undefined or NaN is \<open>None\<close>:
  both are falsy, and \<open>||\<close> replaces them like \<open>0\<close>. A number that is present is an
  integer that a double holds.
\<close>

record 'inc PaginationParams =
  pp_page :: "int option"
  pp_limit :: "int option"
  pp_where :: "where_clause option"
  pp_include :: "'inc option"
  pp_orderBy :: "order_by option"

record meta =
  m_page :: int
  m_limit :: int
  m_total :: int
  m_totalPages :: int
  m_hasNext :: bool
  m_hasPrev :: bool

record 'row PaginatedResult =
  pr_data :: "'row list"
  pr_meta :: meta

text \<open>\<open>x || d\<close> on a number.\<close>

definition num_or :: "int option \<Rightarrow> int \<Rightarrow> int" where
  "num_or x d = (case x of None \<Rightarrow> d | Some n \<Rightarrow> if n = 0 then d else n)"

text \<open>The local constants of \<open>paginate\<close>, in the order of the source.
  \<^verbatim>\<open>
  const page = params.page || 1;
  const limit = Math.min(params.limit || 10, 100); // Max 100 items per page
  const skip = (page - 1) * limit;
  const where = { ...params.where, tenantId, isActive: true };
  \<close>\<close>

definition paginate_page :: "('inc, 'a) PaginationParams_scheme \<Rightarrow> int" where
  "paginate_page params = num_or (pp_page params) 1"

definition paginate_limit :: "('inc, 'a) PaginationParams_scheme \<Rightarrow> int" where
  "paginate_limit params = min (num_or (pp_limit params) 10) 100"

definition paginate_skip :: "('inc, 'a) PaginationParams_scheme \<Rightarrow> int" where
  "paginate_skip params = js_times (js_minus (paginate_page params) 1) (paginate_limit params)"

definition paginate_where :: "('inc, 'a) PaginationParams_scheme \<Rightarrow> string \<Rightarrow> where_clause" where
  "paginate_where params tenantId =
     obj_set ''isActive'' (Field (Equals (B True)))
       (obj_set ''tenantId'' (Field (Equals (S tenantId))) (obj_spread (pp_where params)))"

text \<open>The argument of \<open>model.findMany\<close>:
  \<^verbatim>\<open>
  { where, include: params.include, orderBy: params.orderBy || { createdAt: 'desc' },
    skip, take: limit }
  \<close>\<close>

definition paginate_args :: "('inc, 'a) PaginationParams_scheme \<Rightarrow> string \<Rightarrow> 'inc find_args" where
  "paginate_args params tenantId =
     \<lparr>fa_where = paginate_where params tenantId,
      fa_include = pp_include params,
      fa_orderBy = (case pp_orderBy params of None \<Rightarrow> (''createdAt'', desc) | Some ob \<Rightarrow> ob),
      fa_skip = paginate_skip params,
      fa_take = paginate_limit params\<rparr>"

text \<open>
  \<open>Math.ceil(total / limit)\<close> on integers; \<open>limit\<close> is never \<open>0\<close> here, since
  \<open>0 || 10\<close> is \<open>10\<close>. The quotient is taken exactly, which is what the code computes
  while the count and the limit are at most \<open>2 ^ 53\<close> in magnitude: the statements about
  \<open>totalPages\<close> below carry that bound.
\<close>

definition totalPages_of :: "int \<Rightarrow> int \<Rightarrow> int" where
  "totalPages_of total_rows limit = \<lceil>real_of_int total_rows / real_of_int limit\<rceil>"

text \<open>
  \<open>paginate\<close>: both reads are awaited together, and a failure of either rejects the
  call.
\<close>

definition paginate ::
  "('row, 'inc) model \<Rightarrow> ('inc, 'a) PaginationParams_scheme \<Rightarrow> string \<Rightarrow> exn + 'row PaginatedResult" where
  "paginate mdl params tenantId =
     (let page = paginate_page params;
          limit = paginate_limit params
      in case findMany mdl (paginate_args params tenantId) of
           Inl err \<Rightarrow> Inl err
         | Inr data \<Rightarrow>
             (case count_rows mdl (paginate_where params tenantId) of
                Inl err \<Rightarrow> Inl err
              | Inr total_rows \<Rightarrow>
                  (let totalPages = totalPages_of total_rows limit
                   in Inr \<lparr>pr_data = data,
                           pr_meta = \<lparr>m_page = page, m_limit = limit, m_total = total_rows,
                                      m_totalPages = totalPages,
                                      m_hasNext = (page < totalPages),
                                      m_hasPrev = (page > 1)\<rparr>\<rparr>)))"

section \<open>Audit recorder (database helpers)\<close>

text \<open>The argument of \<open>createAuditLog\<close>; the snapshots are arbitrary values.\<close>

record 'd audit_entry =
  ae_tenantId :: string
  ae_userId :: "string option"
  ae_action :: string
  ae_resourceType :: string
  ae_resourceId :: "string option"
  ae_beforeData :: "'d option"
  ae_afterData :: "'d option"
  ae_ipAddress :: "string option"
  ae_userAgent :: "string option"

text \<open>\<open>x ? JSON.stringify(x) : null\<close>: an absent or falsy snapshot (\<open>0\<close>, the empty
  string, \<open>false\<close>) is stored as null without calling \<open>JSON.stringify\<close>. Which values
  are truthy, and \<open>JSON.stringify\<close> itself, which may throw (a cyclic value, a BigInt),
  are parameters.\<close>

definition stringify_opt ::
  "('d \<Rightarrow> bool) \<Rightarrow> ('d \<Rightarrow> exn + string) \<Rightarrow> 'd option \<Rightarrow> exn + string option" where
  "stringify_opt truthy stringify x =
     (case x of
        None \<Rightarrow> Inr None
      | Some d \<Rightarrow>
          if truthy d
          then (case stringify d of Inl err \<Rightarrow> Inl err | Inr str \<Rightarrow> Inr (Some str))
          else Inr None)"

text \<open>The body of the \<open>try\<close> block: build the row, then \<open>prisma.auditLog.create\<close>.\<close>

definition audit_attempt ::
  "('d \<Rightarrow> bool) \<Rightarrow> ('d \<Rightarrow> exn + string) \<Rightarrow> (audit_row \<Rightarrow> world \<Rightarrow> exn + world) \<Rightarrow>
   'd audit_entry \<Rightarrow> world \<Rightarrow> exn + world" where
  "audit_attempt truthy stringify auditLog_create entry w =
     (case stringify_opt truthy stringify (ae_beforeData entry) of
        Inl err \<Rightarrow> Inl err
      | Inr before_str \<Rightarrow>
          (case stringify_opt truthy stringify (ae_afterData entry) of
             Inl err \<Rightarrow> Inl err
           | Inr after_str \<Rightarrow>
               auditLog_create
                 \<lparr>al_tenantId = ae_tenantId entry, al_userId = ae_userId entry,
                  al_action = ae_action entry, al_resourceType = ae_resourceType entry,
                  al_resourceId = ae_resourceId entry, al_beforeData = before_str,
                  al_afterData = after_str, al_ipAddress = ae_ipAddress entry,
                  al_userAgent = ae_userAgent entry\<rparr> w))"

text \<open>
  \<^verbatim>\<open>
  try { await prisma.auditLog.create({ data: { ... } }); }
  catch (error) {
    console.error('Failed to create audit log:', error);
    // Don't throw error to prevent disrupting main operations
  }
  \<close>
  The append itself, \<open>auditLog_create\<close>, is a parameter: any behaviour of the audit
  store. The result type keeps a place for a thrown error.
\<close>

definition createAuditLog ::
  "('d \<Rightarrow> bool) \<Rightarrow> ('d \<Rightarrow> exn + string) \<Rightarrow> (audit_row \<Rightarrow> world \<Rightarrow> exn + world) \<Rightarrow>
   'd audit_entry \<Rightarrow> world \<Rightarrow> exn + world" where
  "createAuditLog truthy stringify auditLog_create entry w =
     (case audit_attempt truthy stringify auditLog_create entry w of
        Inr w' \<Rightarrow> Inr w'
      | Inl err \<Rightarrow> Inr (w\<lparr>console := console w @ [''Failed to create audit log:'']\<rparr>))"

text \<open>The audit table of the in-memory store, and an audit store that is down.\<close>

definition mem_auditLog_create :: "audit_row \<Rightarrow> world \<Rightarrow> exn + world" where
  "mem_auditLog_create row w =
     (if dbUp w then Inr (w\<lparr>auditLogs := auditLogs w @ [row]\<rparr>) else Inl db_unreachable)"

definition failing_auditLog_create :: "audit_row \<Rightarrow> world \<Rightarrow> exn + world" where
  "failing_auditLog_create row w = Inl db_unreachable"

section \<open>Looking the caller up (src/lib/auth.ts)\<close>

record AuthUser =
  au_id :: string
  au_email :: string
  au_firstName :: "string option"
  au_lastName :: "string option"
  au_tenantId :: string
  au_roleId :: "string option"
  au_role :: "role_row option"

definition authUser_of :: "user_row \<Rightarrow> AuthUser" where
  "authUser_of user =
     \<lparr>au_id = user_id user, au_email = user_email user, au_firstName = user_firstName user,
      au_lastName = user_lastName user, au_tenantId = user_tenantId user,
      au_roleId = user_roleId user, au_role = user_role user\<rparr>"

text \<open>
  \<^verbatim>\<open>
  try {
    const payload = verifyToken(token);
    const user = await prisma.user.findFirst({
      where: { id: payload.userId, tenantId: payload.tenantId, isActive: true },
      include: { role: true } });
    if (!user) return null;
    return { id: user.id, ... };
  } catch (error) { return null; }
  \<close>
\<close>

definition getUserByToken :: "jwt_lib \<Rightarrow> env \<Rightarrow> nat \<Rightarrow> world \<Rightarrow> string \<Rightarrow> AuthUser option" where
  "getUserByToken lib e clock w token =
     (case verifyToken lib e clock token of
        Inl err \<Rightarrow> None
      | Inr payload \<Rightarrow>
          (case user_findFirst w
                  (\<lambda>u. user_id u = tp_userId payload \<and> user_tenantId u = tp_tenantId payload \<and>
                        user_isActive u) of
             Inl err \<Rightarrow> None
           | Inr None \<Rightarrow> None
           | Inr (Some user) \<Rightarrow> Some (authUser_of user)))"


section \<open>The accounts handler (src/app/api/accounts/route.ts)\<close>

text \<open>
  A request: the three headers the handler reads, the query string as a list of pairs,
  and what \<open>await request.json()\<close> gives: the parsed body, or the message of the
  SyntaxError it throws.
\<close>

record 'b request =
  req_authorization :: "string option"
  req_forwardedFor :: "string option"
  req_userAgent :: "string option"
  req_searchParams :: "(string \<times> string) list"
  req_json :: "string + 'b"

text \<open>\<open>s.replace(pat, rep)\<close> with a string pattern: the first occurrence only.\<close>

fun replace_first :: "string \<Rightarrow> string \<Rightarrow> string \<Rightarrow> string" where
  "replace_first pat rep [] = (if pat = [] then rep else [])"
| "replace_first pat rep (c # cs) =
     (if take (length pat) (c # cs) = pat then rep @ drop (length pat) (c # cs)
      else c # replace_first pat rep cs)"

text \<open>\<open>x || d\<close> on a string that may be null: null and the empty string give \<open>d\<close>.\<close>

definition str_or :: "string option \<Rightarrow> string \<Rightarrow> string" where
  "str_or x d = (case x of None \<Rightarrow> d | Some v \<Rightarrow> if v = [] then d else v)"

text \<open>
  \<^verbatim>\<open>
  const token = request.headers.get('authorization')?.replace('Bearer ', '');
  if (!token) throw new Error('Authentication required');
  const user = await getUserByToken(token);
  if (!user) throw new Error('Invalid token');
  return user;
  \<close>
\<close>

definition authenticate :: "jwt_lib \<Rightarrow> env \<Rightarrow> nat \<Rightarrow> world \<Rightarrow> ('b, 'a) request_scheme \<Rightarrow> exn + AuthUser" where
  "authenticate lib e clock w request =
     (case map_option (replace_first ''Bearer '' []) (req_authorization request) of
        None \<Rightarrow> Inl (Error ''Authentication required'')
      | Some token \<Rightarrow>
          if token = [] then Inl (Error ''Authentication required'')
          else (case getUserByToken lib e clock w token of
                  None \<Rightarrow> Inl (Error ''Invalid token'')
                | Some user \<Rightarrow> Inr user))"

subsection \<open>\<open>parseInt\<close>\<close>

text \<open>
  \<open>parseInt(s)\<close> without a radix: leading white space, an optional sign, an optional
  \<open>0x\<close> prefix, then the longest run of digits; NaN (\<open>None\<close>) when there is no digit.
  The value is a double: the integer the digits denote, rounded. Strings are sequences of
  bytes (UTF-8), so the white space that is skipped is the six ASCII characters and the
  encodings of the other white-space and line-terminator code points (U+00A0, U+1680,
  U+2000 to U+200A, U+2028, U+2029, U+202F, U+205F, U+3000, U+FEFF).
\<close>

definition is_space :: "char \<Rightarrow> bool" where
  "is_space c = (c = CHR 0x20 \<or> c = CHR 0x09 \<or> c = CHR 0x0A \<or> c = CHR 0x0B \<or> c = CHR 0x0C \<or> c = CHR 0x0D)"

definition wide_spaces :: "string list" where
  "wide_spaces =
     [[CHR 0xE1, CHR 0x9A, CHR 0x80],
      [CHR 0xE2, CHR 0x80, CHR 0x80], [CHR 0xE2, CHR 0x80, CHR 0x81],
      [CHR 0xE2, CHR 0x80, CHR 0x82], [CHR 0xE2, CHR 0x80, CHR 0x83],
      [CHR 0xE2, CHR 0x80, CHR 0x84], [CHR 0xE2, CHR 0x80, CHR 0x85],
      [CHR 0xE2, CHR 0x80, CHR 0x86], [CHR 0xE2, CHR 0x80, CHR 0x87],
      [CHR 0xE2, CHR 0x80, CHR 0x88], [CHR 0xE2, CHR 0x80, CHR 0x89],
      [CHR 0xE2, CHR 0x80, CHR 0x8A], [CHR 0xE2, CHR 0x80, CHR 0xA8],
      [CHR 0xE2, CHR 0x80, CHR 0xA9], [CHR 0xE2, CHR 0x80, CHR 0xAF],
      [CHR 0xE2, CHR 0x81, CHR 0x9F], [CHR 0xE3, CHR 0x80, CHR 0x80],
      [CHR 0xEF, CHR 0xBB, CHR 0xBF]]"

fun trim_start :: "string \<Rightarrow> string" where
  "trim_start [] = []"
| "trim_start (c # cs) =
     (if is_space c then trim_start cs
      else if c = CHR 0xC2 \<and> take 1 cs = [CHR 0xA0] then trim_start (drop 1 cs)
      else if c # take 2 cs \<in> set wide_spaces then trim_start (drop 2 cs)
      else c # cs)"

definition digit_val :: "char \<Rightarrow> int" where
  "digit_val c =
     (let n = (of_char c :: int)
      in if 48 \<le> n \<and> n \<le> 57 then n - 48
         else if 97 \<le> n \<and> n \<le> 122 then n - 87
         else if 65 \<le> n \<and> n \<le> 90 then n - 55
         else 36)"

definition parseInt :: "string \<Rightarrow> int option" where
  "parseInt s =
     (let s1 = trim_start s;
          neg = (take 1 s1 = ''-'');
          s2 = (if take 1 s1 = ''-'' \<or> take 1 s1 = ''+'' then drop 1 s1 else s1);
          hex = (take 2 s2 = ''0x'' \<or> take 2 s2 = ''0X'');
          radix = (if hex then 16 else 10);
          s3 = (if hex then drop 2 s2 else s2);
          ds = takeWhile (\<lambda>c. digit_val c < radix) s3;
          n = foldl (\<lambda>acc c. acc * radix + digit_val c) 0 ds
      in if ds = [] then None else Some (to_double (if neg then - n else n)))"

subsection \<open>GET /api/accounts\<close>

datatype account_include = OwnerContactsOpportunitiesCounts

datatype response_body =
    ErrorBody string
  | ValidationBody string "string list"
  | PageBody "account_row PaginatedResult"
  | AccountBody account_row

record response =
  res_status :: nat
  res_body :: response_body

text \<open>The where-clause the handler builds from the query string.\<close>

definition GET_where :: "(string \<times> string) list \<Rightarrow> where_clause" where
  "GET_where searchParams =
     (let search = str_or (map_of searchParams ''search'') [];
          industry = str_or (map_of searchParams ''industry'') [];
          accountType = str_or (map_of searchParams ''accountType'') [];
          ownerId = str_or (map_of searchParams ''ownerId'') [];
          w0 = [(''isActive'', Field (Equals (B True)))];
          w1 = (if search \<noteq> []
                then obj_set ''OR''
                       (Or [[(''name'', Contains search ''insensitive'')],
                            [(''website'', Contains search ''insensitive'')],
                            [(''city'', Contains search ''insensitive'')]]) w0
                else w0);
          w2 = (if industry \<noteq> [] then obj_set ''industry'' (Field (Equals (S industry))) w1 else w1);
          w3 = (if accountType \<noteq> [] then obj_set ''accountType'' (Field (Equals (S accountType))) w2 else w2)
      in if ownerId \<noteq> [] then obj_set ''ownerId'' (Field (Equals (S ownerId))) w3 else w3)"

text \<open>The body of the \<open>try\<close> block of \<open>GET\<close>.\<close>

definition GET_try ::
  "jwt_lib \<Rightarrow> env \<Rightarrow> nat \<Rightarrow> world \<Rightarrow> ('b, 'a) request_scheme \<Rightarrow> exn + account_row PaginatedResult" where
  "GET_try lib e clock w request =
     (case authenticate lib e clock w request of
        Inl err \<Rightarrow> Inl err
      | Inr user \<Rightarrow>
          (let searchParams = req_searchParams request;
               page = parseInt (str_or (map_of searchParams ''page'') ''1'');
               limit = parseInt (str_or (map_of searchParams ''limit'') ''10'')
           in paginate (prisma_account w)
                \<lparr>pp_page = page, pp_limit = limit, pp_where = Some (GET_where searchParams),
                 pp_include = Some OwnerContactsOpportunitiesCounts,
                 pp_orderBy = Some (''updatedAt'', desc)\<rparr>
                (au_tenantId user)))"

text \<open>
  \<open>GET\<close> with its \<open>catch\<close>: the error is logged, the two authentication messages map
  to 401 and everything else to 500.
\<close>

definition GET :: "jwt_lib \<Rightarrow> env \<Rightarrow> nat \<Rightarrow> world \<Rightarrow> ('b, 'a) request_scheme \<Rightarrow> response \<times> world" where
  "GET lib e clock w request =
     (case GET_try lib e clock w request of
        Inr result \<Rightarrow> (\<lparr>res_status = 200, res_body = PageBody result\<rparr>, w)
      | Inl err \<Rightarrow>
          (let w' = w\<lparr>console := console w @ [''GET /api/accounts error:'']\<rparr>
           in if err = Error ''Authentication required''
              then (\<lparr>res_status = 401, res_body = ErrorBody ''Authentication required''\<rparr>, w')
              else if err = Error ''Invalid token''
              then (\<lparr>res_status = 401, res_body = ErrorBody ''Invalid token''\<rparr>, w')
              else (\<lparr>res_status = 500, res_body = ErrorBody ''Internal server error''\<rparr>, w')))"

subsection \<open>POST /api/accounts\<close>

text \<open>
  What the schema check returns on success: the columns of the account that this model
  keeps. The check itself (\<open>createAccountSchema.parse\<close>) is a parameter of the handler;
  it gives the issues of a ZodError or the data.
\<close>

record account_data =
  ad_name :: string
  ad_website :: "string option"
  ad_industry :: "string option"
  ad_accountType :: string
  ad_city :: "string option"
  ad_ownerId :: "string option"

definition fresh_account_id :: "world \<Rightarrow> string" where
  "fresh_account_id w = ''account-'' @ replicate (length (accounts w)) (CHR ''i'')"

text \<open>
  \<open>prisma.account.create({ data: { ...data, tenantId, ownerId } })\<close> on the in-memory
  store: the owner must be a user (foreign key); the row gets a new id, the column
  defaults and the time of the insert.
\<close>

definition account_create ::
  "world \<Rightarrow> nat \<Rightarrow> account_data \<Rightarrow> string \<Rightarrow> string \<Rightarrow> exn + account_row \<times> world" where
  "account_create w clock data tenantId ownerId =
     (if \<not> dbUp w then Inl db_unreachable
      else if ownerId \<notin> set (map user_id (users w)) then Inl (Error ''Foreign key constraint failed'')
      else
        (let account =
               \<lparr>acc_id = fresh_account_id w, acc_tenantId = tenantId, acc_name = ad_name data,
                acc_website = ad_website data, acc_industry = ad_industry data,
                acc_accountType = ad_accountType data, acc_city = ad_city data,
                acc_ownerId = Some ownerId, acc_isActive = True,
                acc_createdAt = int clock, acc_updatedAt = int clock\<rparr>
         in Inr (account, w\<lparr>accounts := accounts w @ [account]\<rparr>)))"

text \<open>
  The body of the \<open>try\<close> block of \<open>POST\<close>. A throw carries the store as the
  failing step left it: nothing is rolled back. The snapshot handed to the audit log is
  the created account, an object and so truthy.
\<close>

definition POST_try ::
  "jwt_lib \<Rightarrow> env \<Rightarrow> nat \<Rightarrow> (account_row \<Rightarrow> exn + string) \<Rightarrow> (audit_row \<Rightarrow> world \<Rightarrow> exn + world) \<Rightarrow>
   ('b \<Rightarrow> string list + account_data) \<Rightarrow> world \<Rightarrow> ('b, 'a) request_scheme \<Rightarrow>
   exn \<times> world + account_row \<times> world" where
  "POST_try lib e clock stringify auditLog_create schema_parse w request =
     (case authenticate lib e clock w request of
        Inl err \<Rightarrow> Inl (err, w)
      | Inr user \<Rightarrow>
          (case req_json request of
             Inl msg \<Rightarrow> Inl (Error msg, w)
           | Inr body \<Rightarrow>
               (case schema_parse body of
                  Inl issues \<Rightarrow> Inl (ZodError issues, w)
                | Inr data \<Rightarrow>
                    (case account_create w clock data (au_tenantId user)
                            (str_or (ad_ownerId data) (au_id user)) of
                       Inl err \<Rightarrow> Inl (err, w)
                     | Inr (account, w1) \<Rightarrow>
                         (case createAuditLog (\<lambda>account. True) stringify auditLog_create
                                 \<lparr>ae_tenantId = au_tenantId user, ae_userId = Some (au_id user),
                                  ae_action = ''CREATE'', ae_resourceType = ''account'',
                                  ae_resourceId = Some (acc_id account), ae_beforeData = None,
                                  ae_afterData = Some account,
                                  ae_ipAddress = Some (str_or (req_forwardedFor request) ''unknown''),
                                  ae_userAgent = Some (str_or (req_userAgent request) ''unknown'')\<rparr>
                                 w1 of
                            Inl err \<Rightarrow> Inl (err, w1)
                          | Inr w2 \<Rightarrow> Inr (account, w2))))))"

text \<open>
  \<open>POST\<close> with its \<open>catch\<close>: the error is logged; a ZodError is 400, an error whose
  message contains \<open>Authentication\<close> is 401 with that message, everything else is 500.
\<close>

definition POST ::
  "jwt_lib \<Rightarrow> env \<Rightarrow> nat \<Rightarrow> (account_row \<Rightarrow> exn + string) \<Rightarrow> (audit_row \<Rightarrow> world \<Rightarrow> exn + world) \<Rightarrow>
   ('b \<Rightarrow> string list + account_data) \<Rightarrow> world \<Rightarrow> ('b, 'a) request_scheme \<Rightarrow> response \<times> world" where
  "POST lib e clock stringify auditLog_create schema_parse w request =
     (case POST_try lib e clock stringify auditLog_create schema_parse w request of
        Inr (account, w') \<Rightarrow> (\<lparr>res_status = 201, res_body = AccountBody account\<rparr>, w')
      | Inl (err, w0) \<Rightarrow>
          (let w' = w0\<lparr>console := console w0 @ [''POST /api/accounts error:'']\<rparr>
           in case err of
                ZodError issues \<Rightarrow>
                  (\<lparr>res_status = 400, res_body = ValidationBody ''Validation failed'' issues\<rparr>, w')
              | Error msg \<Rightarrow>
                  if contains_str msg ''Authentication''
                  then (\<lparr>res_status = 401, res_body = ErrorBody msg\<rparr>, w')
                  else (\<lparr>res_status = 500, res_body = ErrorBody ''Internal server error''\<rparr>, w')))"

section \<open>Sample data\<close>

text \<open>A small deployment to run the operations on: a tenant \<open>t1\<close> with one user,
  whose role grants reading reports and nothing else, two accounts of \<open>t1\<close> and one
  of a second tenant \<open>t2\<close>, and a token life of four seconds.\<close>

definition demo_env :: env where
  "demo_env = \<lparr>env_JWT_SECRET = Some ''k'', env_JWT_EXPIRES_IN = Some 4\<rparr>"

definition demo_claims :: TokenPayload where
  "demo_claims =
     \<lparr>tp_userId = ''u1'', tp_tenantId = ''t1'', tp_roleId = ''r1'', tp_email = ''a@b.c''\<rparr>"

definition demo_role :: role_row where
  "demo_role =
     \<lparr>role_id = ''r1'', role_name = ''Reports only'',
      role_permissions = Some [(''reports'', [''read''])]\<rparr>"

definition demo_user :: user_row where
  "demo_user =
     \<lparr>user_id = ''u1'', user_email = ''a@b.c'', user_firstName = None, user_lastName = None,
      user_tenantId = ''t1'', user_roleId = Some ''r1'', user_role = Some demo_role,
      user_isActive = True\<rparr>"

definition demo_account :: "string \<Rightarrow> string \<Rightarrow> int \<Rightarrow> int \<Rightarrow> account_row" where
  "demo_account ident tenant created updated =
     \<lparr>acc_id = ident, acc_tenantId = tenant, acc_name = ident, acc_website = None,
      acc_industry = None, acc_accountType = ''prospect'', acc_city = None,
      acc_ownerId = Some ''u1'', acc_isActive = True,
      acc_createdAt = created, acc_updatedAt = updated\<rparr>"

definition demo_world :: world where
  "demo_world =
     \<lparr>dbUp = True, users = [demo_user],
      accounts = [demo_account ''a'' ''t1'' 1 10, demo_account ''b'' ''t1'' 2 3,
                  demo_account ''c'' ''t2'' 5 5],
      auditLogs = [], console = []\<rparr>"

definition demo_data :: account_data where
  "demo_data =
     \<lparr>ad_name = ''Acme'', ad_website = None, ad_industry = None,
      ad_accountType = ''prospect'', ad_city = None, ad_ownerId = None\<rparr>"

definition demo_request :: "account_data request" where
  "demo_request =
     \<lparr>req_authorization = Some (''Bearer '' @ generateToken ref_jwt demo_env 0 demo_claims),
      req_forwardedFor = None, req_userAgent = None, req_searchParams = [],
      req_json = Inr demo_data\<rparr>"



text \<open>A base query and pagination parameters that name another tenant, parameters
  with a negative limit, and a table of 25 accounts of one tenant.\<close>

definition foreign_query :: base_query where
  "foreign_query = \<lparr>bq_where = Some [(''tenantId'', Field (Equals (S ''t2'')))]\<rparr>"

definition foreign_params :: "account_include PaginationParams" where
  "foreign_params =
     \<lparr>pp_page = None, pp_limit = None,
      pp_where = Some [(''tenantId'', Field (Equals (S ''t2'')))],
      pp_include = None, pp_orderBy = None\<rparr>"

definition default_params :: "account_include PaginationParams" where
  "default_params =
     \<lparr>pp_page = None, pp_limit = None, pp_where = None, pp_include = None, pp_orderBy = None\<rparr>"

definition negative_limit_params :: "account_include PaginationParams" where
  "negative_limit_params =
     \<lparr>pp_page = Some 1, pp_limit = Some (- 5), pp_where = None, pp_include = None,
      pp_orderBy = None\<rparr>"

definition page3_params :: "account_include PaginationParams" where
  "page3_params =
     \<lparr>pp_page = Some 3, pp_limit = Some 10, pp_where = None, pp_include = None,
      pp_orderBy = None\<rparr>"

definition numbered_account :: "nat \<Rightarrow> account_row" where
  "numbered_account i = demo_account (replicate i (CHR ''x'')) ''t1'' (int i) (int i)"

definition world25 :: world where
  "world25 = demo_world\<lparr>accounts := map numbered_account [0..<25]\<rparr>"

text \<open>The rows of a page, empty when the call threw.\<close>

definition page_rows :: "exn + 'row PaginatedResult \<Rightarrow> 'row list" where
  "page_rows r = (case r of Inl err \<Rightarrow> [] | Inr res \<Rightarrow> pr_data res)"

definition demo_entry :: "account_row audit_entry" where
  "demo_entry =
     \<lparr>ae_tenantId = ''t1'', ae_userId = Some ''u1'', ae_action = ''CREATE'',
      ae_resourceType = ''account'', ae_resourceId = Some ''a'', ae_beforeData = None,
      ae_afterData = Some (demo_account ''a'' ''t1'' 1 10), ae_ipAddress = None,
      ae_userAgent = None\<rparr>"





definition demo_stringify :: "account_row \<Rightarrow> exn + string" where
  "demo_stringify a = Inr (acc_name a)"

definition demo_truthy :: "account_row \<Rightarrow> bool" where
  "demo_truthy a = True"

text \<open>Parameters at the edge of the integers a double holds: page \<open>2 ^ 53 - 1\<close>.\<close>

definition huge_page_params :: "account_include PaginationParams" where
  "huge_page_params =
     \<lparr>pp_page = Some (2 ^ 53 - 1), pp_limit = Some 10, pp_where = None, pp_include = None,
      pp_orderBy = None\<rparr>"

section \<open>Properties\<close>

subsection \<open>Permission model\<close>

text \<open>
  On every resource name that the permission set owns, or that is not the name of a
  member of \<open>Object.prototype\<close>, \<open>hasPermission\<close> returns, and it answers true
  exactly when the set has a universal entry \<open>*\<close> whose actions contain \<open>*\<close>, or it
  has an entry for the resource whose actions contain the action or \<open>*\<close>.
\<close>

lemma js_get_star: "js_get perms ''*'' = (case map_of perms ''*'' of Some v \<Rightarrow> Own v | None \<Rightarrow> Undefined)"
  by (simp add: js_get_def object_prototype_keys_def)

lemma hasPermission_own_keys:
  assumes "r \<notin> set object_prototype_keys \<or> r \<in> fst ` set perms"
  shows "hasPermission (Some perms) r a =
     Inr ((\<exists>star. map_of perms ''*'' = Some star \<and> ''*'' \<in> set star) \<or>
          (\<exists>acts. map_of perms r = Some acts \<and> (a \<in> set acts \<or> ''*'' \<in> set acts)))"
proof -
  have star: "and_includes (js_get perms ''*'') ''*'' =
      Inr (\<exists>star. map_of perms ''*'' = Some star \<and> ''*'' \<in> set star)"
    by (simp add: js_get_star and_includes_def array_includes_def split: option.splits)
  from assms have res: "js_get perms r = (case map_of perms r of Some v \<Rightarrow> Own v | None \<Rightarrow> Undefined)"
    by (auto simp: js_get_def map_of_eq_None_iff split: option.splits)
  show ?thesis
    by (auto simp: hasPermission_def star res array_includes_def split: option.splits bool.splits)
qed

text \<open>
  C3. The claim holds on the resource names above, but not for every resource: on a name
  that the permission set does not own and \<open>Object.prototype\<close> has, such as
  \<open>constructor\<close>, the lookup finds the inherited member, which is truthy and has no
  \<open>includes\<close>, and \<open>hasPermission\<close> throws a TypeError where the claim has it return
  false.
\<close>

theorem hasPermission_inherited_key_throws:
  "hasPermission (Some []) ''constructor'' ''read'' =
     Inl (Error ''resourcePermissions.includes is not a function'') \<and>
   hasPermission (Some [(''accounts'', [''read'', ''write''])]) ''toString'' ''read'' =
     Inl (Error ''resourcePermissions.includes is not a function'')"
  by (simp add: hasPermission_def js_get_def and_includes_def object_prototype_keys_def)

text \<open>
  C10. A missing permission set (\<open>null\<close> or \<open>undefined\<close>) is denied for every
  resource and action; the check returns false and does not throw.
\<close>

theorem hasPermission_missing_set:
  "hasPermission None r a = Inr False"
  by (simp add: hasPermission_def)

subsection \<open>Token service\<close>

text \<open>The reference library decodes what it encodes, and keeps the library contract.\<close>

lemma dec_str_enc: "dec_str (enc_str s @ r) = Some (s, r)"
proof (induction s)
  case Nil
  show ?case by (cases r) (simp_all add: enc_str_def)
next
  case (Cons c s)
  then show ?case by (simp add: enc_str_def)
qed

lemma dec_nat_enc: "dec_nat (enc_nat n @ r) = Some (n, r)"
  by (induction n) (simp_all add: enc_nat_def)

lemma ref_decode_body: "ref_decode (ref_body p @ sig) = Some (p, sig)"
  by (simp add: ref_decode_def ref_body_def dec_str_enc dec_nat_enc)

lemma ref_jwt_roundtrip: "jwt_roundtrip ref_jwt"
  by (simp add: jwt_roundtrip_def ref_jwt_def ref_sign_def ref_verify_def Let_def
      ref_decode_body TokenPayload.extend_def)

lemma demo_token_valid:
  "verifyToken ref_jwt demo_env 1 (generateToken ref_jwt demo_env 0 demo_claims) =
     Inr (TokenPayload.extend demo_claims \<lparr>iat = 0, expiry = 4\<rparr>)"
  by code_simp

lemma malformed_token_cause: "jwt_verify ref_jwt ''not a token'' (JWT_SECRET demo_env) 1 = Inl (JsonWebTokenError ''jwt malformed'')"
  by code_simp
lemma forged_token_cause: "jwt_verify ref_jwt (jwt_sign ref_jwt demo_claims ''forged'' 4 0) (JWT_SECRET demo_env) 1 =
        Inl (JsonWebTokenError ''invalid signature'')"
  by code_simp
lemma expired_token_cause: "jwt_verify ref_jwt (generateToken ref_jwt demo_env 0 demo_claims) (JWT_SECRET demo_env) 4 =
        Inl TokenExpiredError"
  by code_simp

text \<open>
  C8. For every claim set, a token issued for it verifies at every time before its
  expiry, under any token library that keeps the round-trip contract, and the claims
  returned equal the ones issued on the user id, tenant id, role id and email.
\<close>

theorem verifyToken_generateToken:
  assumes "jwt_roundtrip lib" and "t' < t + JWT_EXPIRES_IN e"
  shows "\<exists>d. verifyToken lib e t' (generateToken lib e t c) = Inr d \<and>
           tp_userId d = tp_userId c \<and> tp_tenantId d = tp_tenantId c \<and>
           tp_roleId d = tp_roleId c \<and> tp_email d = tp_email c"
proof -
  let ?d = "TokenPayload.extend c \<lparr>iat = t, expiry = t + JWT_EXPIRES_IN e\<rparr>"
  from assms have "jwt_verify lib (jwt_sign lib c (JWT_SECRET e) (JWT_EXPIRES_IN e) t) (JWT_SECRET e) t' = Inr ?d"
    unfolding jwt_roundtrip_def by blast
  then have "verifyToken lib e t' (generateToken lib e t c) = Inr ?d"
    by (simp add: verifyToken_def generateToken_def)
  moreover have "tp_userId ?d = tp_userId c \<and> tp_tenantId ?d = tp_tenantId c \<and>
           tp_roleId ?d = tp_roleId c \<and> tp_email ?d = tp_email c"
    by (simp add: TokenPayload.extend_def)
  ultimately show ?thesis by blast
qed

text \<open>The reference library at three seconds of a four-second life.\<close>

theorem verifyToken_generateToken_witness:
  "\<exists>d. verifyToken ref_jwt demo_env 3 (generateToken ref_jwt demo_env 0 demo_claims) = Inr d \<and>
       tp_userId d = ''u1'' \<and> tp_tenantId d = ''t1'' \<and> tp_roleId d = ''r1'' \<and> tp_email d = ''a@b.c''"
proof -
  have "(3::nat) < 0 + JWT_EXPIRES_IN demo_env"
    by (simp add: JWT_EXPIRES_IN_def demo_env_def)
  from verifyToken_generateToken [OF ref_jwt_roundtrip this, of demo_claims]
  show ?thesis by (simp add: demo_claims_def)
qed

text \<open>
  C9. Whatever the cause for which the library refuses a token (malformed, wrong
  signature, expired), \<open>verifyToken\<close> throws the same error, \<open>Invalid or expired
  token\<close>.
\<close>

theorem verifyToken_fails_closed:
  "jwt_verify lib token (JWT_SECRET e) clock = Inl cause \<Longrightarrow>
   verifyToken lib e clock token = Inl (Error ''Invalid or expired token'')"
  by (simp add: verifyToken_def)

text \<open>A string that is no token, a token signed with another secret, and a token at its
  expiry: three causes in the library, one error for the caller.\<close>

theorem verifyToken_fails_closed_witness:
  "verifyToken ref_jwt demo_env 1 ''not a token'' = Inl (Error ''Invalid or expired token'') \<and>
   verifyToken ref_jwt demo_env 1 (jwt_sign ref_jwt demo_claims ''forged'' 4 0) =
     Inl (Error ''Invalid or expired token'') \<and>
   verifyToken ref_jwt demo_env 4 (generateToken ref_jwt demo_env 0 demo_claims) =
     Inl (Error ''Invalid or expired token'')"
  using verifyToken_fails_closed [OF malformed_token_cause] verifyToken_fails_closed [OF forged_token_cause] verifyToken_fails_closed [OF expired_token_cause]
  by simp

subsection \<open>Looking the caller up\<close>

text \<open>
  C4. For a token whose claims validate, \<open>getUserByToken\<close> returns a user only when a
  row with the token's user id exists, is active and has the token's tenant id (and the
  store answers); the user returned is that row. In every other case it returns null.
\<close>

theorem getUserByToken_only_active_same_tenant:
  assumes "verifyToken lib e clock token = Inr payload"
  shows "(getUserByToken lib e clock w token \<noteq> None \<longleftrightarrow>
            dbUp w \<and> (\<exists>u \<in> set (users w). user_id u = tp_userId payload \<and>
                          user_tenantId u = tp_tenantId payload \<and> user_isActive u)) \<and>
         (\<forall>a. getUserByToken lib e clock w token = Some a \<longrightarrow>
            au_id a = tp_userId payload \<and> au_tenantId a = tp_tenantId payload \<and>
            (\<exists>u \<in> set (users w). a = authUser_of u \<and> user_isActive u))"
proof -
  let ?P = "\<lambda>u. user_id u = tp_userId payload \<and> user_tenantId u = tp_tenantId payload \<and> user_isActive u"
  show ?thesis
  proof (cases "dbUp w")
    case False
    with assms show ?thesis by (simp add: getUserByToken_def user_findFirst_def)
  next
    case True
    show ?thesis
    proof (cases "find ?P (users w)")
      case None
      then have "\<not> (\<exists>u \<in> set (users w). ?P u)" by (simp add: find_None_iff)
      with assms True None show ?thesis
        by (simp add: getUserByToken_def user_findFirst_def)
    next
      case (Some u)
      then have "u \<in> set (users w)" and "?P u"
        by (auto simp: find_Some_iff)
      with assms True Some have g: "getUserByToken lib e clock w token = Some (authUser_of u)"
        by (simp add: getUserByToken_def user_findFirst_def)
      have ids: "au_id (authUser_of u) = user_id u" "au_tenantId (authUser_of u) = user_tenantId u"
        by (simp_all add: authUser_of_def)
      from g ids \<open>u \<in> set (users w)\<close> \<open>?P u\<close> True show ?thesis
        by auto
    qed
  qed
qed

text \<open>The user is found; made inactive, moved to another tenant or removed, it is
  not.\<close>

theorem getUserByToken_witness:
  "getUserByToken ref_jwt demo_env 1 demo_world (generateToken ref_jwt demo_env 0 demo_claims)
     = Some (authUser_of demo_user) \<and>
   getUserByToken ref_jwt demo_env 1 (demo_world\<lparr>users := [demo_user\<lparr>user_isActive := False\<rparr>]\<rparr>)
     (generateToken ref_jwt demo_env 0 demo_claims) = None \<and>
   getUserByToken ref_jwt demo_env 1 (demo_world\<lparr>users := [demo_user\<lparr>user_tenantId := ''t2''\<rparr>]\<rparr>)
     (generateToken ref_jwt demo_env 0 demo_claims) = None \<and>
   getUserByToken ref_jwt demo_env 1 (demo_world\<lparr>users := []\<rparr>)
     (generateToken ref_jwt demo_env 0 demo_claims) = None"
  using getUserByToken_only_active_same_tenant [OF demo_token_valid, of demo_world]
    getUserByToken_only_active_same_tenant [OF demo_token_valid, of "demo_world\<lparr>users := [demo_user\<lparr>user_isActive := False\<rparr>]\<rparr>"]
    getUserByToken_only_active_same_tenant [OF demo_token_valid, of "demo_world\<lparr>users := [demo_user\<lparr>user_tenantId := ''t2''\<rparr>]\<rparr>"]
    getUserByToken_only_active_same_tenant [OF demo_token_valid, of "demo_world\<lparr>users := []\<rparr>"]
  by (auto simp: demo_world_def demo_user_def demo_claims_def TokenPayload.extend_def)

subsection \<open>Numbers\<close>

text \<open>An integer of magnitude up to \<open>2 ^ 53\<close> is a double as it stands.\<close>

lemma bit_length_le_iff: "bit_length n \<le> k \<longleftrightarrow> n < 2 ^ k"
proof (induction n arbitrary: k rule: bit_length.induct)
  case (1 n)
  show ?case
  proof (cases "n \<le> 0")
    case True
    have "(0::int) < 2 ^ k" by simp
    with True have "n < 2 ^ k" by linarith
    with True show ?thesis by (simp add: bit_length.simps [of n])
  next
    case False
    show ?thesis
    proof (cases k)
      case 0
      with False show ?thesis by (simp add: bit_length.simps [of n])
    next
      case (Suc j)
      from "1.IH" [OF False, of j] have "bit_length (n div 2) \<le> j \<longleftrightarrow> n div 2 < 2 ^ j" .
      also have "\<dots> \<longleftrightarrow> n < 2 ^ Suc j" by auto
      finally show ?thesis using False Suc by (simp add: bit_length.simps [of n])
    qed
  qed
qed

lemma to_double_safe:
  assumes "\<bar>n\<bar> \<le> 2 ^ 53"
  shows "to_double n = n"
proof (cases "\<bar>n\<bar> < 2 ^ 53")
  case True
  then have "bit_length \<bar>n\<bar> \<le> 53" by (simp add: bit_length_le_iff)
  then show ?thesis by (simp add: to_double_def)
next
  case False
  with assms have a: "\<bar>n\<bar> = 2 ^ 53" by simp
  have pos: "to_double (2 ^ 53) = 2 ^ 53" by code_simp
  have neg: "to_double (- (2 ^ 53)) = - (2 ^ 53)" by code_simp
  from a have "n = 2 ^ 53 \<or> n = - (2 ^ 53)" by linarith
  with pos neg show ?thesis by auto
qed

text \<open>Beyond that the rounding shows: ties go to the even significand.\<close>

lemma to_double_rounds:
  "to_double (2 ^ 53 + 1) = 2 ^ 53 \<and> to_double (2 ^ 53 + 3) = 2 ^ 53 + 4 \<and>
   to_double (- (2 ^ 53) - 1) = - (2 ^ 53) \<and> to_double (2 ^ 54 + 6) = 2 ^ 54 + 8"
  by code_simp

subsection \<open>Tenant scoping\<close>

text \<open>Setting a key of an object, and what a matching row satisfies.\<close>

lemma map_of_filter_key:
  "map_of (filter (\<lambda>kv. fst kv \<noteq> k) obj) k' = (if k' = k then None else map_of obj k')"
  by (induction obj) auto

lemma map_of_obj_set:
  "map_of (obj_set k v obj) k' = (if k' = k then Some v else map_of obj k')"
  by (simp add: obj_set_def map_add_def map_of_filter_key split: option.splits)

lemma where_matches_field:
  assumes "where_matches get wh row" and "map_of wh k = Some (Field c)"
  shows "cond_holds (get row k) c"
proof -
  from assms(2) have "k \<in> set (map fst wh)"
    by (metis map_of_SomeD fst_conv image_eqI set_map)
  with assms show ?thesis
    by (auto simp: where_matches_def list_all_iff)
qed

lemma where_matches_equals:
  "where_matches get wh row \<Longrightarrow> map_of wh k = Some (Field (Equals v)) \<Longrightarrow> get row k = Some v"
  using where_matches_field [of get wh row k "Equals v"] by (simp add: cond_holds_def)

lemma set_window: "set (window skip tk rows) \<subseteq> set rows"
proof (cases "0 \<le> tk")
  case True
  have "set (take (nat tk) (drop (nat skip) rows)) \<subseteq> set (drop (nat skip) rows)"
    by (rule set_take_subset)
  also have "\<dots> \<subseteq> set rows" by (rule set_drop_subset)
  finally show ?thesis using True by (simp add: window_def)
next
  case False
  have "set (take (nat (- tk)) (drop (nat skip) (rev rows))) \<subseteq> set (drop (nat skip) (rev rows))"
    by (rule set_take_subset)
  also have "\<dots> \<subseteq> set (rev rows)" by (rule set_drop_subset)
  finally show ?thesis using False by (simp add: window_def)
qed

lemma set_order_rows: "set (order_rows get ob rows) = set rows"
  by (cases "snd ob") (simp_all add: order_rows_def)

lemma mem_findMany_matches:
  assumes "mem_findMany get up rows args = Inr data" and "a \<in> set data"
  shows "a \<in> set rows \<and> where_matches get (fa_where args) a"
proof -
  from assms(1) have "data = window (fa_skip args) (fa_take args)
      (order_rows get (fa_orderBy args) (filter (where_matches get (fa_where args)) rows))"
    by (simp add: mem_findMany_def split: if_splits)
  with assms(2) have "a \<in> set (order_rows get (fa_orderBy args)
      (filter (where_matches get (fa_where args)) rows))"
    using subsetD [OF set_window] by fastforce
  then show ?thesis by (simp add: set_order_rows)
qed

lemma paginate_Inr:
  assumes "paginate mdl params t = Inr res"
  shows "findMany mdl (paginate_args params t) = Inr (pr_data res) \<and>
         count_rows mdl (paginate_where params t) = Inr (m_total (pr_meta res)) \<and>
         pr_meta res =
           \<lparr>m_page = paginate_page params, m_limit = paginate_limit params,
            m_total = m_total (pr_meta res),
            m_totalPages = totalPages_of (m_total (pr_meta res)) (paginate_limit params),
            m_hasNext = (paginate_page params < totalPages_of (m_total (pr_meta res)) (paginate_limit params)),
            m_hasPrev = (1 < paginate_page params)\<rparr>"
  using assms by (auto simp: paginate_def Let_def split: sum.splits)

lemma length_filter_imp:
  "(\<And>x. P x \<Longrightarrow> Q x) \<Longrightarrow> length (filter P xs) \<le> length (filter Q xs)"
  by (induction xs) auto

lemma paginate_where_tenant:
  "map_of (paginate_where params t) ''tenantId'' = Some (Field (Equals (S t)))"
  by (simp add: paginate_where_def map_of_obj_set)

text \<open>
  C1. For every tenant id argument and every base query or pagination parameters, also
  ones whose where-clause names another tenant, the where-clause produced by
  \<open>withTenantFilter\<close> and by \<open>paginate\<close> holds \<open>tenantId\<close> equal to the argument,
  so only rows of that tenant match it. \<open>paginate\<close> hands that one where-clause to both
  reads, \<open>findMany\<close> and \<open>count\<close>, whatever the model; on the account table the rows
  returned all belong to that tenant and the total counts rows of that tenant only.
\<close>

theorem tenant_predicate_from_argument:
  "(\<exists>q'. withTenantFilter t (Some q) = Inr q' \<and>
      (\<exists>wh. bq_where q' = Some wh \<and>
         map_of wh ''tenantId'' = Some (Field (Equals (S t))) \<and>
         (\<forall>row. where_matches get wh row \<longrightarrow> get row ''tenantId'' = Some (S t)))) \<and>
   map_of (paginate_where params t) ''tenantId'' = Some (Field (Equals (S t))) \<and>
   (\<forall>row. where_matches get (paginate_where params t) row \<longrightarrow> get row ''tenantId'' = Some (S t)) \<and>
   fa_where (paginate_args params t) = paginate_where params t \<and>
   (\<forall>mdl res. paginate mdl params t = Inr res \<longrightarrow>
      findMany mdl (paginate_args params t) = Inr (pr_data res) \<and>
      count_rows mdl (paginate_where params t) = Inr (m_total (pr_meta res))) \<and>
   (\<forall>res. paginate (prisma_account w) params t = Inr res \<longrightarrow>
      (\<forall>a \<in> set (pr_data res). acc_tenantId a = t \<and> a \<in> set (accounts w)) \<and>
      m_total (pr_meta res) =
        int (length (filter (where_matches account_get (paginate_where params t)) (accounts w))) \<and>
      m_total (pr_meta res) \<le> int (length (filter (\<lambda>a. acc_tenantId a = t) (accounts w))))"
proof (intro conjI)
  let ?wh = "obj_set ''tenantId'' (Field (Equals (S t))) (obj_spread (bq_where q))"
  have "map_of ?wh ''tenantId'' = Some (Field (Equals (S t)))"
    by (simp add: map_of_obj_set)
  moreover from this have "\<forall>row. where_matches get ?wh row \<longrightarrow> get row ''tenantId'' = Some (S t)"
    by (simp add: where_matches_equals)
  ultimately show "\<exists>q'. withTenantFilter t (Some q) = Inr q' \<and>
      (\<exists>wh. bq_where q' = Some wh \<and>
         map_of wh ''tenantId'' = Some (Field (Equals (S t))) \<and>
         (\<forall>row. where_matches get wh row \<longrightarrow> get row ''tenantId'' = Some (S t)))"
    by (simp add: withTenantFilter_def)
next
  show "map_of (paginate_where params t) ''tenantId'' = Some (Field (Equals (S t)))"
    by (rule paginate_where_tenant)
next
  show "\<forall>row. where_matches get (paginate_where params t) row \<longrightarrow> get row ''tenantId'' = Some (S t)"
    by (simp add: where_matches_equals [OF _ paginate_where_tenant])
next
  show "fa_where (paginate_args params t) = paginate_where params t"
    by (simp add: paginate_args_def)
next
  show "\<forall>mdl res. paginate mdl params t = Inr res \<longrightarrow>
      findMany mdl (paginate_args params t) = Inr (pr_data res) \<and>
      count_rows mdl (paginate_where params t) = Inr (m_total (pr_meta res))"
    using paginate_Inr by blast
next
  show "\<forall>res. paginate (prisma_account w) params t = Inr res \<longrightarrow>
      (\<forall>a \<in> set (pr_data res). acc_tenantId a = t \<and> a \<in> set (accounts w)) \<and>
      m_total (pr_meta res) =
        int (length (filter (where_matches account_get (paginate_where params t)) (accounts w))) \<and>
      m_total (pr_meta res) \<le> int (length (filter (\<lambda>a. acc_tenantId a = t) (accounts w)))"
  proof (intro allI impI conjI ballI)
    fix res
    assume run: "paginate (prisma_account w) params t = Inr res"
    note parts = paginate_Inr [OF run]
    from parts
    have found: "mem_findMany account_get (dbUp w) (accounts w) (paginate_args params t) = Inr (pr_data res)"
      by (simp add: prisma_account_def)
    from parts
    have counted: "mem_count account_get (dbUp w) (accounts w) (paginate_where params t) =
        Inr (m_total (pr_meta res))"
      by (simp add: prisma_account_def)
    have tenant: "acc_tenantId a = t" if "where_matches account_get (paginate_where params t) a" for a
      using where_matches_equals [OF that paginate_where_tenant] by (simp add: account_get_def)
    show total: "m_total (pr_meta res) =
        int (length (filter (where_matches account_get (paginate_where params t)) (accounts w)))"
      using counted by (simp add: mem_count_def split: if_splits)
    have "length (filter (where_matches account_get (paginate_where params t)) (accounts w)) \<le>
          length (filter (\<lambda>a. acc_tenantId a = t) (accounts w))"
      by (rule length_filter_imp) (rule tenant)
    with total show "m_total (pr_meta res) \<le> int (length (filter (\<lambda>a. acc_tenantId a = t) (accounts w)))"
      by simp
    fix a
    assume a: "a \<in> set (pr_data res)"
    from mem_findMany_matches [OF found a]
    have "a \<in> set (accounts w)" and "where_matches account_get (paginate_where params t) a"
      by (simp_all add: paginate_args_def)
    then show "acc_tenantId a = t" and "a \<in> set (accounts w)"
      by (simp_all add: tenant)
  qed
qed

text \<open>The ceiling of the quotient, on integers.\<close>

lemma totalPages_of_div [code]: "totalPages_of total_rows limit = - (- total_rows div limit)"
  by (simp add: totalPages_of_def ceiling_divide_eq_div)

lemma foreign_page:
  "paginate (prisma_account demo_world) foreign_params ''t1'' =
     Inr \<lparr>pr_data = [demo_account ''b'' ''t1'' 2 3, demo_account ''a'' ''t1'' 1 10],
          pr_meta = \<lparr>m_page = 1, m_limit = 10, m_total = 2, m_totalPages = 1,
                     m_hasNext = False, m_hasPrev = False\<rparr>\<rparr>"
  by code_simp


lemma foreign_filter:
  "withTenantFilter ''t1'' (Some foreign_query) =
     Inr \<lparr>bq_where = Some [(''tenantId'', Field (Equals (S ''t1'')))]\<rparr>"
  by code_simp

text \<open>A query and parameters that ask for tenant \<open>t2\<close>, run for tenant \<open>t1\<close>: the two
  accounts of \<open>t1\<close> are returned and counted, the account of \<open>t2\<close> is neither.\<close>

theorem tenant_predicate_witness:
  "withTenantFilter ''t1'' (Some foreign_query) =
     Inr \<lparr>bq_where = Some [(''tenantId'', Field (Equals (S ''t1'')))]\<rparr> \<and>
   map_of (paginate_where foreign_params ''t1'') ''tenantId'' = Some (Field (Equals (S ''t1''))) \<and>
   paginate (prisma_account demo_world) foreign_params ''t1'' =
     Inr \<lparr>pr_data = [demo_account ''b'' ''t1'' 2 3, demo_account ''a'' ''t1'' 1 10],
          pr_meta = \<lparr>m_page = 1, m_limit = 10, m_total = 2, m_totalPages = 1,
                     m_hasNext = False, m_hasPrev = False\<rparr>\<rparr> \<and>
   count_rows (prisma_account demo_world :: (account_row, account_include) model)
     (paginate_where foreign_params ''t1'') = Inr 2 \<and>
   list_all (\<lambda>a. acc_tenantId a = ''t1'')
     (page_rows (paginate (prisma_account demo_world) foreign_params ''t1''))"
proof -
  note run = foreign_page
  from tenant_predicate_from_argument [of "''t1''" foreign_query account_get foreign_params demo_world]
  have scoped: "map_of (paginate_where foreign_params ''t1'') ''tenantId'' = Some (Field (Equals (S ''t1'')))"
    and reads: "\<forall>(mdl :: (account_row, account_include) model) res.
      paginate mdl foreign_params ''t1'' = Inr res \<longrightarrow>
      findMany mdl (paginate_args foreign_params ''t1'') = Inr (pr_data res) \<and>
      count_rows mdl (paginate_where foreign_params ''t1'') = Inr (m_total (pr_meta res))"
    and rows: "\<forall>res. paginate (prisma_account demo_world) foreign_params ''t1'' = Inr res \<longrightarrow>
      (\<forall>a \<in> set (pr_data res). acc_tenantId a = ''t1'' \<and> a \<in> set (accounts demo_world)) \<and>
      m_total (pr_meta res) =
        int (length (filter (where_matches account_get (paginate_where foreign_params ''t1''))
               (accounts demo_world))) \<and>
      m_total (pr_meta res) \<le> int (length (filter (\<lambda>a. acc_tenantId a = ''t1'') (accounts demo_world)))"
    by blast+
  from rows run have "list_all (\<lambda>a. acc_tenantId a = ''t1'')
     (page_rows (paginate (prisma_account demo_world) foreign_params ''t1''))"
    by (simp add: page_rows_def list_all_iff)
  moreover from reads run
  have "count_rows (prisma_account demo_world :: (account_row, account_include) model)
     (paginate_where foreign_params ''t1'') = Inr 2"
    by fastforce
  ultimately show ?thesis using foreign_filter scoped run by simp
qed

subsection \<open>Pagination\<close>

lemma paginate_limit_Some:
  "pp_limit params = Some l \<Longrightarrow> paginate_limit params = (if l = 0 then 10 else min l 100)"
  by (simp add: paginate_limit_def num_or_def)

lemma paginate_page_Some:
  "pp_page params = Some p \<Longrightarrow> 1 \<le> p \<Longrightarrow> paginate_page params = p"
  by (simp add: paginate_page_def num_or_def)

lemma length_window: "0 \<le> tk \<Longrightarrow> length (window skip tk rows) \<le> nat tk"
  by (simp add: window_def)

text \<open>
  C6, as the code has it. Take a page \<open>p \<ge> 1\<close> and an integer limit \<open>l\<close>, both integers
  that a double holds exactly (at most \<open>2 ^ 53\<close> in magnitude), with the product
  \<open>(p - 1) * limit\<close> in that range too. The effective limit is \<open>min l 100\<close>, or \<open>10\<close>
  when \<open>l\<close> is \<open>0\<close>: never above \<open>100\<close>, and at least \<open>1\<close> when \<open>l\<close> is not negative.
  \<open>paginate\<close> asks the store for \<open>skip = (p - 1) * limit\<close> and \<open>take = limit\<close>; the meta
  data report the page, the limit, \<open>totalPages = ceil(total / limit)\<close> (for a total up to
  \<open>2 ^ 53\<close>), \<open>hasNext = (page < totalPages)\<close> and \<open>hasPrev = (page > 1)\<close>. With
  \<open>l \<ge> 0\<close> the rows returned from the account table are the window of at most \<open>limit\<close>
  rows after the first \<open>skip\<close> ordered matches.
\<close>

theorem paginate_window_and_meta:
  assumes "pp_page params = Some p" and "1 \<le> p" and "p \<le> 2 ^ 53"
    and "pp_limit params = Some l" and "\<bar>l\<bar> \<le> 2 ^ 53"
    and "\<bar>(p - 1) * (if l = 0 then 10 else min l 100)\<bar> \<le> 2 ^ 53"
  shows "paginate_limit params = (if l = 0 then 10 else min l 100) \<and>
         paginate_limit params \<le> 100 \<and>
         (0 \<le> l \<longrightarrow> 1 \<le> paginate_limit params) \<and>
         fa_skip (paginate_args params t) = (p - 1) * paginate_limit params \<and>
         fa_take (paginate_args params t) = paginate_limit params \<and>
         (\<forall>res. paginate mdl params t = Inr res \<longrightarrow>
            findMany mdl (paginate_args params t) = Inr (pr_data res) \<and>
            count_rows mdl (paginate_where params t) = Inr (m_total (pr_meta res)) \<and>
            m_page (pr_meta res) = p \<and>
            m_limit (pr_meta res) = paginate_limit params \<and>
            (0 \<le> m_total (pr_meta res) \<and> m_total (pr_meta res) \<le> 2 ^ 53 \<longrightarrow>
               m_totalPages (pr_meta res) =
                 \<lceil>real_of_int (m_total (pr_meta res)) / real_of_int (m_limit (pr_meta res))\<rceil>) \<and>
            m_hasNext (pr_meta res) = (p < m_totalPages (pr_meta res)) \<and>
            m_hasPrev (pr_meta res) = (1 < p)) \<and>
         (\<forall>res. 0 \<le> l \<longrightarrow> paginate (prisma_account w) params t = Inr res \<longrightarrow>
            length (pr_data res) \<le> nat (paginate_limit params) \<and>
            pr_data res =
              take (nat (paginate_limit params))
                (drop (nat ((p - 1) * paginate_limit params))
                   (order_rows account_get (fa_orderBy (paginate_args params t))
                      (filter (where_matches account_get (paginate_where params t)) (accounts w)))))"
proof -
  note lim = paginate_limit_Some [OF assms(4)]
  note pg = paginate_page_Some [OF assms(1,2)]
  from assms(2,3) have "\<bar>p - 1\<bar> \<le> 2 ^ 53" by simp
  then have sub: "js_minus p 1 = p - 1"
    by (simp add: js_minus_def to_double_safe)
  from assms(6) have "\<bar>(p - 1) * paginate_limit params\<bar> \<le> 2 ^ 53"
    by (simp only: lim)
  then have mul: "js_times (p - 1) (paginate_limit params) = (p - 1) * paginate_limit params"
    by (simp only: js_times_def to_double_safe)
  have skip: "fa_skip (paginate_args params t) = (p - 1) * paginate_limit params"
    by (simp add: paginate_args_def paginate_skip_def pg sub mul)
  have tk: "fa_take (paginate_args params t) = paginate_limit params"
    by (simp add: paginate_args_def)
  have pos: "0 \<le> l \<Longrightarrow> 1 \<le> paginate_limit params"
    by (simp add: lim)
  have meta: "\<forall>res. paginate mdl params t = Inr res \<longrightarrow>
            findMany mdl (paginate_args params t) = Inr (pr_data res) \<and>
            count_rows mdl (paginate_where params t) = Inr (m_total (pr_meta res)) \<and>
            m_page (pr_meta res) = p \<and>
            m_limit (pr_meta res) = paginate_limit params \<and>
            (0 \<le> m_total (pr_meta res) \<and> m_total (pr_meta res) \<le> 2 ^ 53 \<longrightarrow>
               m_totalPages (pr_meta res) =
                 \<lceil>real_of_int (m_total (pr_meta res)) / real_of_int (m_limit (pr_meta res))\<rceil>) \<and>
            m_hasNext (pr_meta res) = (p < m_totalPages (pr_meta res)) \<and>
            m_hasPrev (pr_meta res) = (1 < p)"
  proof (intro allI impI)
    fix res
    assume "paginate mdl params t = Inr res"
    from paginate_Inr [OF this]
    have f: "findMany mdl (paginate_args params t) = Inr (pr_data res)"
      and c: "count_rows mdl (paginate_where params t) = Inr (m_total (pr_meta res))"
      and m: "pr_meta res =
           \<lparr>m_page = paginate_page params, m_limit = paginate_limit params,
            m_total = m_total (pr_meta res),
            m_totalPages = totalPages_of (m_total (pr_meta res)) (paginate_limit params),
            m_hasNext = (paginate_page params < totalPages_of (m_total (pr_meta res)) (paginate_limit params)),
            m_hasPrev = (1 < paginate_page params)\<rparr>"
      by blast+
    have "m_page (pr_meta res) = p" by (subst m) (simp add: pg)
    moreover have ml: "m_limit (pr_meta res) = paginate_limit params" by (subst m) simp
    moreover have mt: "m_totalPages (pr_meta res) =
        \<lceil>real_of_int (m_total (pr_meta res)) / real_of_int (paginate_limit params)\<rceil>"
      by (subst m) (simp add: totalPages_of_def)
    moreover have "m_hasNext (pr_meta res) = (p < totalPages_of (m_total (pr_meta res)) (paginate_limit params))"
      by (subst m) (simp add: pg)
    moreover have "m_hasPrev (pr_meta res) = (1 < p)" by (subst m) (simp add: pg)
    ultimately show "findMany mdl (paginate_args params t) = Inr (pr_data res) \<and>
            count_rows mdl (paginate_where params t) = Inr (m_total (pr_meta res)) \<and>
            m_page (pr_meta res) = p \<and>
            m_limit (pr_meta res) = paginate_limit params \<and>
            (0 \<le> m_total (pr_meta res) \<and> m_total (pr_meta res) \<le> 2 ^ 53 \<longrightarrow>
               m_totalPages (pr_meta res) =
                 \<lceil>real_of_int (m_total (pr_meta res)) / real_of_int (m_limit (pr_meta res))\<rceil>) \<and>
            m_hasNext (pr_meta res) = (p < m_totalPages (pr_meta res)) \<and>
            m_hasPrev (pr_meta res) = (1 < p)"
      using f c by (simp add: totalPages_of_def)
  qed
  have rows: "\<forall>res. 0 \<le> l \<longrightarrow> paginate (prisma_account w) params t = Inr res \<longrightarrow>
            length (pr_data res) \<le> nat (paginate_limit params) \<and>
            pr_data res =
              take (nat (paginate_limit params))
                (drop (nat ((p - 1) * paginate_limit params))
                   (order_rows account_get (fa_orderBy (paginate_args params t))
                      (filter (where_matches account_get (paginate_where params t)) (accounts w))))"
  proof (intro allI impI)
    fix res
    assume l0: "0 \<le> l" and run: "paginate (prisma_account w) params t = Inr res"
    from pos [OF l0] have lp: "0 \<le> paginate_limit params" by simp
    from paginate_Inr [OF run]
    have "mem_findMany account_get (dbUp w) (accounts w) (paginate_args params t) = Inr (pr_data res)"
      by (simp add: prisma_account_def)
    then have d: "pr_data res = window (fa_skip (paginate_args params t)) (fa_take (paginate_args params t))
        (order_rows account_get (fa_orderBy (paginate_args params t))
           (filter (where_matches account_get (fa_where (paginate_args params t))) (accounts w)))"
      by (simp add: mem_findMany_def split: if_splits)
    have wh: "fa_where (paginate_args params t) = paginate_where params t"
      by (simp add: paginate_args_def)
    from d lp show "length (pr_data res) \<le> nat (paginate_limit params) \<and>
            pr_data res =
              take (nat (paginate_limit params))
                (drop (nat ((p - 1) * paginate_limit params))
                   (order_rows account_get (fa_orderBy (paginate_args params t))
                      (filter (where_matches account_get (paginate_where params t)) (accounts w))))"
      by (simp add: skip tk wh window_def)
  qed
  from lim skip tk pos meta rows show ?thesis by simp
qed

lemma paginate_skip_rounds:
  "fa_skip (paginate_args huge_page_params ''t1'') = 90071992547409904"
  by code_simp

text \<open>
  A negative limit is not raised to \<open>1\<close>: with \<open>limit = -5\<close> the effective limit, and
  the \<open>take\<close> handed to the store, is \<open>-5\<close>. And beyond the integers a double holds
  the skip is not the product: at page \<open>2 ^ 53 - 1\<close> with limit 10 the store is asked to
  skip \<open>90071992547409904\<close> rows, the double next to \<open>(p - 1) * 10\<close>.
\<close>

theorem paginate_limit_not_clamped_below:
  "paginate_limit negative_limit_params = - 5 \<and>
   fa_take (paginate_args negative_limit_params ''t1'') = - 5 \<and>
   \<not> (1 \<le> paginate_limit negative_limit_params \<and> paginate_limit negative_limit_params \<le> 100) \<and>
   pp_page huge_page_params = Some (2 ^ 53 - 1) \<and>
   paginate_limit huge_page_params = 10 \<and>
   fa_skip (paginate_args huge_page_params ''t1'') = 90071992547409904 \<and>
   (2 ^ 53 - 1 - 1) * paginate_limit huge_page_params = 90071992547409900"
proof -
  have neg: "paginate_limit negative_limit_params = - 5"
    by (simp add: paginate_limit_def num_or_def negative_limit_params_def)
  have tk: "fa_take (paginate_args negative_limit_params ''t1'') = - 5"
    by (simp add: paginate_args_def neg)
  have lim: "paginate_limit huge_page_params = 10"
    by (simp add: paginate_limit_def num_or_def huge_page_params_def)
  have pg: "pp_page huge_page_params = Some (2 ^ 53 - 1)"
    by (simp add: huge_page_params_def)
  show ?thesis
    by (simp add: neg tk lim pg paginate_skip_rounds)
qed

text \<open>Page 3 with limit 10 over 25 matching rows: 5 items, 3 pages, no next page, a
  previous one.\<close>

lemma page3_run:
  "paginate (prisma_account world25) page3_params ''t1'' =
     Inr \<lparr>pr_data = [numbered_account 4, numbered_account 3, numbered_account 2,
                     numbered_account 1, numbered_account 0],
          pr_meta = \<lparr>m_page = 3, m_limit = 10, m_total = 25, m_totalPages = 3,
                     m_hasNext = False, m_hasPrev = True\<rparr>\<rparr>"
  by code_simp

theorem paginate_page3_of_25:
  "paginate_limit page3_params = 10 \<and>
   fa_skip (paginate_args page3_params ''t1'') = 20 \<and>
   fa_take (paginate_args page3_params ''t1'') = 10 \<and>
   length (page_rows (paginate (prisma_account world25) page3_params ''t1'')) = 5 \<and>
   paginate (prisma_account world25) page3_params ''t1'' =
     Inr \<lparr>pr_data = [numbered_account 4, numbered_account 3, numbered_account 2,
                     numbered_account 1, numbered_account 0],
          pr_meta = \<lparr>m_page = 3, m_limit = 10, m_total = 25, m_totalPages = 3,
                     m_hasNext = False, m_hasPrev = True\<rparr>\<rparr>"
proof -
  have pg: "pp_page page3_params = Some 3" and lm: "pp_limit page3_params = Some 10"
    by (simp_all add: page3_params_def)
  have b1: "(1::int) \<le> 3" and b2: "(3::int) \<le> 2 ^ 53" and b3: "\<bar>10::int\<bar> \<le> 2 ^ 53"
    and b4: "\<bar>((3::int) - 1) * (if (10::int) = 0 then 10 else min 10 100)\<bar> \<le> 2 ^ 53"
    by simp_all
  from paginate_window_and_meta [OF pg b1 b2 lm b3 b4, of "''t1''" "prisma_account world25" world25]
  have "paginate_limit page3_params = 10"
    and "fa_skip (paginate_args page3_params ''t1'') = (3 - 1) * paginate_limit page3_params"
    and "fa_take (paginate_args page3_params ''t1'') = paginate_limit page3_params"
    by simp_all
  then show ?thesis by (simp add: page3_run page_rows_def)
qed

subsection \<open>Default ordering\<close>

lemma default_page:
  "paginate (prisma_account demo_world) default_params ''t1'' =
     Inr \<lparr>pr_data = [demo_account ''b'' ''t1'' 2 3, demo_account ''a'' ''t1'' 1 10],
          pr_meta = \<lparr>m_page = 1, m_limit = 10, m_total = 2, m_totalPages = 1,
                     m_hasNext = False, m_hasPrev = False\<rparr>\<rparr>"
  by code_simp

text \<open>Without an ordering from the caller the account updated last (\<open>a\<close>, at 10) comes
  after the one updated at 3: the rows are not ordered by their update time.\<close>

theorem paginate_default_not_by_update:
  "pp_orderBy default_params = None \<and>
   fa_orderBy (paginate_args default_params ''t1'') \<noteq> (''updatedAt'', desc) \<and>
   map acc_updatedAt (page_rows (paginate (prisma_account demo_world) default_params ''t1'')) = [3, 10]"
proof (intro conjI)
  show "pp_orderBy default_params = None"
    by (simp add: default_params_def)
  show "fa_orderBy (paginate_args default_params ''t1'') \<noteq> (''updatedAt'', desc)"
    by (simp add: paginate_args_def default_params_def)
  show "map acc_updatedAt (page_rows (paginate (prisma_account demo_world) default_params ''t1'')) = [3, 10]"
    by (simp add: default_page page_rows_def demo_account_def)
qed

lemma sorted_wrt_window: "sorted_wrt R rows \<Longrightarrow> sorted_wrt R (window skip tk rows)"
proof (cases "0 \<le> tk")
  case True
  assume "sorted_wrt R rows"
  then have "sorted_wrt R (take (nat tk) (drop (nat skip) rows))"
    by (intro sorted_wrt_take sorted_wrt_drop)
  with True show ?thesis by (simp add: window_def)
next
  case False
  assume "sorted_wrt R rows"
  then have "sorted_wrt (\<lambda>x y. R y x) (rev rows)" by (simp add: sorted_wrt_rev)
  then have "sorted_wrt (\<lambda>x y. R y x) (take (nat (- tk)) (drop (nat skip) (rev rows)))"
    by (intro sorted_wrt_take sorted_wrt_drop)
  then have "sorted_wrt R (rev (take (nat (- tk)) (drop (nat skip) (rev rows))))"
    by (simp add: sorted_wrt_rev)
  with False show ?thesis by (simp add: window_def)
qed

lemma order_rows_desc:
  "sorted_wrt (\<lambda>a b. order_key get k b \<le> order_key get k a) (order_rows get (k, desc) rows)"
proof -
  have "sorted (map (\<lambda>r. - order_key get k r) (sort_key (\<lambda>r. - order_key get k r) rows))"
    by (rule sorted_sort_key)
  then show ?thesis
    by (simp add: order_rows_def sorted_map)
qed

text \<open>
  C7, as the code has it. When the caller supplies no ordering, \<open>paginate\<close> asks the
  store for \<open>{ createdAt: 'desc' }\<close>: the rows returned from the account table are
  ordered most recently created first.
\<close>

theorem paginate_default_order:
  assumes "pp_orderBy params = None"
  shows "fa_orderBy (paginate_args params t) = (''createdAt'', desc) \<and>
         (\<forall>res. paginate (prisma_account w) params t = Inr res \<longrightarrow>
            sorted_wrt (\<lambda>a b. acc_createdAt b \<le> acc_createdAt a) (pr_data res))"
proof (intro conjI allI impI)
  show ob: "fa_orderBy (paginate_args params t) = (''createdAt'', desc)"
    using assms by (simp add: paginate_args_def)
  fix res
  assume run: "paginate (prisma_account w) params t = Inr res"
  from paginate_Inr [OF run]
  have "mem_findMany account_get (dbUp w) (accounts w) (paginate_args params t) = Inr (pr_data res)"
    by (simp add: prisma_account_def)
  then have d: "pr_data res = window (fa_skip (paginate_args params t)) (fa_take (paginate_args params t))
      (order_rows account_get (''createdAt'', desc)
         (filter (where_matches account_get (fa_where (paginate_args params t))) (accounts w)))"
    by (simp add: mem_findMany_def ob split: if_splits)
  have key: "order_key account_get ''createdAt'' = acc_createdAt"
    by (rule ext) (simp add: order_key_def account_get_def)
  have "sorted_wrt (\<lambda>a b. acc_createdAt b \<le> acc_createdAt a)
      (order_rows account_get (''createdAt'', desc)
         (filter (where_matches account_get (fa_where (paginate_args params t))) (accounts w)))"
    using order_rows_desc [of account_get "''createdAt''"] by (simp add: key)
  then show "sorted_wrt (\<lambda>a b. acc_createdAt b \<le> acc_createdAt a) (pr_data res)"
    by (subst d) (rule sorted_wrt_window)
qed

theorem paginate_default_order_witness:
  "fa_orderBy (paginate_args default_params ''t1'') = (''createdAt'', desc) \<and>
   map acc_createdAt (page_rows (paginate (prisma_account demo_world) default_params ''t1'')) = [2, 1] \<and>
   sorted_wrt (\<lambda>a b. acc_createdAt b \<le> acc_createdAt a)
     (page_rows (paginate (prisma_account demo_world) default_params ''t1''))"
proof -
  have none: "pp_orderBy default_params = None" by (simp add: default_params_def)
  from paginate_default_order [OF none, of "''t1''" demo_world] default_page
  have "fa_orderBy (paginate_args default_params ''t1'') = (''createdAt'', desc)"
    and "sorted_wrt (\<lambda>a b. acc_createdAt b \<le> acc_createdAt a)
     (page_rows (paginate (prisma_account demo_world) default_params ''t1''))"
    by (simp_all add: page_rows_def)
  then show ?thesis by (simp add: default_page page_rows_def demo_account_def)
qed

subsection \<open>Audit recorder\<close>

text \<open>A falsy snapshot is stored as null, and \<open>JSON.stringify\<close> is not called on it: an
  absent value and a falsy one give null even with a \<open>stringify\<close> that always throws.\<close>

lemma stringify_opt_falsy:
  "stringify_opt (\<lambda>d. False) (\<lambda>d. Inl (Error ''never called'')) (Some d) = Inr None \<and>
   stringify_opt truthy (\<lambda>d. Inl (Error ''never called'')) None = Inr None \<and>
   stringify_opt (\<lambda>d. True) (\<lambda>d. Inl (Error ''cyclic'')) (Some d) = Inl (Error ''cyclic'')"
  by (simp add: stringify_opt_def)

text \<open>The sample request, authenticated and run.\<close>

lemma demo_authenticate:
  "authenticate ref_jwt demo_env 1 demo_world demo_request = Inr (authUser_of demo_user)"
  by code_simp

lemma demo_post_failing_audit:
  "POST ref_jwt demo_env 1 demo_stringify failing_auditLog_create Inr demo_world demo_request =
     (\<lparr>res_status = 201, res_body = AccountBody
          \<lparr>acc_id = ''account-iii'', acc_tenantId = ''t1'', acc_name = ''Acme'', acc_website = None,
           acc_industry = None, acc_accountType = ''prospect'', acc_city = None,
           acc_ownerId = Some ''u1'', acc_isActive = True, acc_createdAt = 1, acc_updatedAt = 1\<rparr>\<rparr>,
      demo_world\<lparr>accounts := accounts demo_world @
          [\<lparr>acc_id = ''account-iii'', acc_tenantId = ''t1'', acc_name = ''Acme'', acc_website = None,
           acc_industry = None, acc_accountType = ''prospect'', acc_city = None,
           acc_ownerId = Some ''u1'', acc_isActive = True, acc_createdAt = 1, acc_updatedAt = 1\<rparr>],
        console := [''Failed to create audit log:'']\<rparr>)"
  by code_simp

lemma demo_get:
  "GET ref_jwt demo_env 1 demo_world demo_request =
     (\<lparr>res_status = 200, res_body = PageBody
         \<lparr>pr_data = [demo_account ''a'' ''t1'' 1 10, demo_account ''b'' ''t1'' 2 3],
          pr_meta = \<lparr>m_page = 1, m_limit = 10, m_total = 2, m_totalPages = 1,
                     m_hasNext = False, m_hasPrev = False\<rparr>\<rparr>\<rparr>, demo_world)"
  by code_simp


text \<open>
  C5. For every audit entry and every behaviour of the audit store, \<open>createAuditLog\<close>
  returns normally. The response of the triggering \<open>POST\<close> is the one it gives when
  the audit store is down, and the account table after it is the same whether the append
  fails or succeeds.
\<close>

theorem createAuditLog_never_throws:
  "(\<exists>w'. createAuditLog truthy stringify auditLog_create entry w = Inr w') \<and>
   fst (POST lib e clock acc_stringify auditLog_create schema_parse w request) =
     fst (POST lib e clock acc_stringify failing_auditLog_create schema_parse w request) \<and>
   accounts (snd (POST lib e clock acc_stringify failing_auditLog_create schema_parse w request)) =
     accounts (snd (POST lib e clock acc_stringify mem_auditLog_create schema_parse w request))"
proof (intro conjI)
  show "\<exists>w'. createAuditLog truthy stringify auditLog_create entry w = Inr w'"
    by (simp add: createAuditLog_def split: sum.splits)
next
  show "fst (POST lib e clock acc_stringify auditLog_create schema_parse w request) =
     fst (POST lib e clock acc_stringify failing_auditLog_create schema_parse w request)"
    by (simp add: POST_def POST_try_def createAuditLog_def Let_def
        split: sum.splits prod.splits exn.splits)
next
  show "accounts (snd (POST lib e clock acc_stringify failing_auditLog_create schema_parse w request)) =
     accounts (snd (POST lib e clock acc_stringify mem_auditLog_create schema_parse w request))"
    by (auto simp: POST_def POST_try_def createAuditLog_def audit_attempt_def Let_def
        failing_auditLog_create_def mem_auditLog_create_def stringify_opt_def
        split: sum.splits prod.splits exn.splits if_splits)
qed

text \<open>With the audit store down the failure is logged to the console, and the account
  is created with status 201.\<close>

theorem createAuditLog_outage_witness:
  "createAuditLog demo_truthy demo_stringify failing_auditLog_create demo_entry demo_world
     = Inr (demo_world\<lparr>console := [''Failed to create audit log:'']\<rparr>) \<and>
   res_status (fst (POST ref_jwt demo_env 1 demo_stringify mem_auditLog_create Inr demo_world demo_request)) = 201 \<and>
   map acc_id (accounts (snd (POST ref_jwt demo_env 1 demo_stringify mem_auditLog_create Inr demo_world demo_request)))
     = [''a'', ''b'', ''c'', ''account-iii'']"
proof -
  from createAuditLog_never_throws [where auditLog_create = mem_auditLog_create and w = demo_world
      and lib = ref_jwt and e = demo_env and clock = 1 and acc_stringify = demo_stringify
      and schema_parse = Inr and request = demo_request and stringify = demo_stringify
      and entry = demo_entry and truthy = demo_truthy]
  have same: "fst (POST ref_jwt demo_env 1 demo_stringify mem_auditLog_create Inr demo_world demo_request) =
       fst (POST ref_jwt demo_env 1 demo_stringify failing_auditLog_create Inr demo_world demo_request)"
    and acc: "accounts (snd (POST ref_jwt demo_env 1 demo_stringify failing_auditLog_create Inr demo_world demo_request)) =
       accounts (snd (POST ref_jwt demo_env 1 demo_stringify mem_auditLog_create Inr demo_world demo_request))"
    by simp_all
  have "createAuditLog demo_truthy demo_stringify failing_auditLog_create demo_entry demo_world
     = Inr (demo_world\<lparr>console := [''Failed to create audit log:'']\<rparr>)"
    by (simp add: createAuditLog_def audit_attempt_def stringify_opt_def failing_auditLog_create_def
        demo_world_def demo_entry_def demo_stringify_def demo_truthy_def)
  moreover have "res_status (fst (POST ref_jwt demo_env 1 demo_stringify mem_auditLog_create Inr demo_world demo_request)) = 201"
    by (simp only: same demo_post_failing_audit fst_conv response.select_convs)
  moreover have "map acc_id (accounts (snd (POST ref_jwt demo_env 1 demo_stringify mem_auditLog_create Inr demo_world demo_request)))
     = [''a'', ''b'', ''c'', ''account-iii'']"
    unfolding acc [symmetric] demo_post_failing_audit snd_conv
    by (simp add: demo_world_def demo_account_def)
  ultimately show ?thesis by simp
qed

subsection \<open>The accounts handler and the permission model\<close>

text \<open>\<open>parseInt\<close> on the query string: sign and hexadecimal prefix, the digits before
  the first other character, NaN without a digit, a no-break space (U+00A0) and a line
  separator (U+2028) skipped as white space, and a value beyond \<open>2 ^ 53\<close> rounded to
  the double.\<close>

lemma parseInt_examples:
  "parseInt ''  -0x1F'' = Some (- 31) \<and>
   parseInt ''12abc'' = Some 12 \<and>
   parseInt ''abc'' = None \<and>
   parseInt [CHR 0xC2, CHR 0xA0, CHR ''7''] = Some 7 \<and>
   parseInt [CHR 0xE2, CHR 0x80, CHR 0xA8, CHR 0x09, CHR ''4'', CHR ''2''] = Some 42 \<and>
   parseInt ''9007199254740993'' = Some 9007199254740992"
  by code_simp


























end
